theory Spec2Isabelle
  imports Complex_Main
begin

section \<open>JavaScript values used by the shop directory\<close>

text \<open>
  The numbers that reach the query engine from the request layer are results of
  \<^verbatim>\<open>parseInt\<close> or of \<^verbatim>\<open>Math.round\<close>: an integer or \<^verbatim>\<open>NaN\<close>.
  Integers are kept exact (a double is exact up to \<open>2^53\<close>; list lengths and
  distances in metres stay far below).
\<close>

datatype jsnum = NaN | Fin int

text \<open>\<^verbatim>\<open>a + b\<close> and \<^verbatim>\<open>a - b\<close> on numbers: \<^verbatim>\<open>NaN\<close> is absorbing.\<close>

fun js_add :: "jsnum \<Rightarrow> jsnum \<Rightarrow> jsnum" where
  "js_add (Fin a) (Fin b) = Fin (a + b)"
| "js_add _ _ = NaN"

fun js_sub :: "jsnum \<Rightarrow> jsnum \<Rightarrow> jsnum" where
  "js_sub (Fin a) (Fin b) = Fin (a - b)"
| "js_sub _ _ = NaN"

text \<open>\<^verbatim>\<open>a <= b\<close>: false as soon as one side is \<^verbatim>\<open>NaN\<close>.\<close>

fun js_le :: "jsnum \<Rightarrow> jsnum \<Rightarrow> bool" where
  "js_le (Fin a) (Fin b) = (a \<le> b)"
| "js_le _ _ = False"

text \<open>
  Truthiness of an optional string (\<^verbatim>\<open>undefined\<close>, \<^verbatim>\<open>null\<close> and the empty
  string are falsy), and \<^verbatim>\<open>x || null\<close>.
\<close>

definition truthy :: "string option \<Rightarrow> bool" where
  "truthy v = (case v of None \<Rightarrow> False | Some s \<Rightarrow> s \<noteq> [])"

definition or_null :: "string option \<Rightarrow> string option" where
  "or_null v = (if truthy v then v else None)"

subsection \<open>\<^verbatim>\<open>parseInt\<close> with no radix argument\<close>

text \<open>
  ECMAScript \<^verbatim>\<open>parseInt(string)\<close>: leading white space is skipped, one sign is read,
  a \<^verbatim>\<open>0x\<close>/\<^verbatim>\<open>0X\<close> prefix selects radix 16 (radix 10 otherwise), the longest
  prefix of digits is read, and \<^verbatim>\<open>NaN\<close> is returned when that prefix is empty.
  Characters are the 8-bit characters of HOL strings, so of the white space characters
  only those below U+0100 occur.
\<close>

definition isWhiteSpace :: "char \<Rightarrow> bool" where
  "isWhiteSpace c = ((of_char c :: nat) \<in> {9, 10, 11, 12, 13, 32, 160})"

definition digitValue :: "char \<Rightarrow> nat option" where
  "digitValue c =
     (let n = (of_char c :: nat) in
      if 48 \<le> n \<and> n \<le> 57 then Some (n - 48)
      else if 97 \<le> n \<and> n \<le> 102 then Some (n - 87)
      else if 65 \<le> n \<and> n \<le> 70 then Some (n - 55)
      else None)"

definition radixDigit :: "nat \<Rightarrow> char \<Rightarrow> nat option" where
  "radixDigit R c =
     (case digitValue c of
        None \<Rightarrow> None
      | Some d \<Rightarrow> if d < R then Some d else None)"

fun leadingDigits :: "nat \<Rightarrow> string \<Rightarrow> nat list" where
  "leadingDigits R [] = []"
| "leadingDigits R (c # cs) =
     (case radixDigit R c of
        None \<Rightarrow> []
      | Some d \<Rightarrow> d # leadingDigits R cs)"

definition digitsValue :: "nat \<Rightarrow> nat list \<Rightarrow> nat" where
  "digitsValue R ds = foldl (\<lambda>acc d. acc * R + d) 0 ds"

definition parseInt :: "string \<Rightarrow> jsnum" where
  "parseInt inputString =
     (let S = dropWhile isWhiteSpace inputString;
          sign = (if take 1 S = ''-'' then - 1 else (1 :: int));
          S1 = (if take 1 S = ''+'' \<or> take 1 S = ''-'' then drop 1 S else S);
          hex = (take 2 S1 = ''0x'' \<or> take 2 S1 = ''0X'');
          R = (if hex then 16 else 10);
          S2 = (if hex then drop 2 S1 else S1);
          Z = leadingDigits R S2
      in if Z = [] then NaN else Fin (sign * int (digitsValue R Z)))"

subsection \<open>\<^verbatim>\<open>Array.prototype.slice\<close>\<close>

text \<open>
  \<^verbatim>\<open>xs.slice(start, end)\<close>: both arguments go through ToIntegerOrInfinity
  (\<^verbatim>\<open>NaN\<close> becomes 0), a negative index counts from the end, both are clamped to
  the length, and an empty range gives the empty list.
\<close>

definition toInteger :: "jsnum \<Rightarrow> int" where
  "toInteger v = (case v of NaN \<Rightarrow> 0 | Fin i \<Rightarrow> i)"

definition relativeIndex :: "int \<Rightarrow> int \<Rightarrow> int" where
  "relativeIndex len i = (if i < 0 then max (len + i) 0 else min i len)"

definition slice :: "'a list \<Rightarrow> jsnum \<Rightarrow> jsnum \<Rightarrow> 'a list" where
  "slice xs start end =
     (let len = int (length xs);
          k = relativeIndex len (toInteger start);
          final = relativeIndex len (toInteger end)
      in take (nat (final - k)) (drop (nat k) xs))"

section \<open>The tables\<close>

text \<open>
  One record per table of the schema, with the columns the storage layer reads or
  writes. A nullable column is an \<open>option\<close>; a \<^verbatim>\<open>decimal\<close> column is the string the
  driver returns; a timestamp is a number of milliseconds. A table is the list of its
  rows, and a \<^verbatim>\<open>select\<close> without \<^verbatim>\<open>orderBy\<close> returns the matching rows in table
  order.
\<close>

record shop =
  s_id :: string
  s_name :: string
  s_slug :: string
  s_lat :: string
  s_lng :: string
  s_city :: string
  s_priceLevel :: "int option"
  s_halal :: "bool option"
  s_veg :: "bool option"
  s_isPublished :: "bool option"
  s_hasOffers :: "bool option"
  s_hasDelivery :: "bool option"

record openingHoursRow =
  oh_shopId :: string
  weekday :: int
  openTime :: "string option"
  closeTime :: "string option"

record review =
  r_id :: string
  r_shopId :: string
  r_userId :: "string option"
  r_rating :: int
  r_text :: string
  r_userHash :: "string option"
  r_authorName :: "string option"
  r_isAnonymous :: "bool option"
  r_isEdited :: "bool option"
  r_editedAt :: "nat option"
  r_createdAt :: "nat option"
  r_updatedAt :: "nat option"

record photo =
  ph_id :: string
  ph_shopId :: string
  ph_url :: string

record userFavorite =
  fav_id :: string
  fav_userId :: string
  fav_shopId :: string
  fav_createdAt :: "nat option"

text \<open>Of the users table only the primary keys matter here (foreign keys refer to them).\<close>

record db =
  users :: "string list"
  shops :: "shop list"
  openingHours :: "openingHoursRow list"
  reviews :: "review list"
  photos :: "photo list"
  userFavorites :: "userFavorite list"

text \<open>
  What can be raised: the one error the storage layer throws itself, the driver's error
  for an insert that violates a foreign key of the schema, and the error of a call to
  a name that is not defined.
\<close>

datatype error = ReviewNotFoundOrUnauthorized | ForeignKeyViolation | ReferenceError

section \<open>Reviews\<close>

subsection \<open>\<^verbatim>\<open>DatabaseStorage.createReview\<close>\<close>

text \<open>
  The argument object: the validated review data, the \<^verbatim>\<open>authorName\<close> property the
  route adds to it, and the three optional identity properties.
\<close>

record createReviewArg =
  a_shopId :: string
  a_rating :: int
  a_text :: string
  a_authorName :: "string option"
  a_userHash :: "string option"
  a_userId :: "string option"
  a_isAnonymous :: "bool option"

text \<open>
  The insert into \<^verbatim>\<open>reviews\<close>: \<^verbatim>\<open>shop_id\<close> and a non-null \<^verbatim>\<open>user_id\<close> are foreign
  keys. The new row goes to the end of the table.
\<close>

definition insertReviewRow :: "db \<Rightarrow> review \<Rightarrow> error + (review \<times> db)" where
  "insertReviewRow d row =
     (if r_shopId row \<notin> set (map s_id (shops d)) then Inl ForeignKeyViolation
      else if (case r_userId row of None \<Rightarrow> False | Some u \<Rightarrow> u \<notin> set (users d))
        then Inl ForeignKeyViolation
      else Inr (row, d\<lparr>reviews := reviews d @ [row]\<rparr>))"

text \<open>
  \<^verbatim>\<open>const { userHash, userId, isAnonymous = !userId, ...reviewData } = review\<close>, then the
  values object: first the spread \<^verbatim>\<open>reviewData\<close> (which carries the caller's
  \<^verbatim>\<open>authorName\<close>), then the properties that override it. \<open>newId\<close> is the generated
  primary key and \<open>now\<close> the clock (column default and \<^verbatim>\<open>new Date()\<close>).
\<close>

definition createReview :: "string \<Rightarrow> nat \<Rightarrow> db \<Rightarrow> createReviewArg \<Rightarrow> error + (review \<times> db)" where
  "createReview newId now d review =
     (let userHash = a_userHash review;
          userId = a_userId review;
          isAnonymous = (case a_isAnonymous review of None \<Rightarrow> \<not> truthy userId | Some b \<Rightarrow> b);
          reviewData = \<lparr> r_id = newId, r_shopId = a_shopId review, r_userId = None,
                         r_rating = a_rating review, r_text = a_text review,
                         r_userHash = None, r_authorName = a_authorName review,
                         r_isAnonymous = Some True, r_isEdited = Some False,
                         r_editedAt = None, r_createdAt = Some now, r_updatedAt = Some now \<rparr>
      in insertReviewRow d
           (reviewData\<lparr> r_userId := or_null userId,
                         r_userHash := or_null userHash,
                         r_isAnonymous := Some isAnonymous,
                         r_authorName := (if truthy userId then None else Some ''Anonymer Nutzer''),
                         r_updatedAt := Some now \<rparr>))"

subsection \<open>\<^verbatim>\<open>getUserReviewForShop\<close>, \<^verbatim>\<open>updateReview\<close>, \<^verbatim>\<open>deleteReview\<close>\<close>

definition getUserReviewForShop :: "db \<Rightarrow> string \<Rightarrow> string \<Rightarrow> review option" where
  "getUserReviewForShop d userId shopId =
     find (\<lambda>r. r_userId r = Some userId \<and> r_shopId r = shopId) (reviews d)"

record updateReviewArg =
  u_rating :: "int option"
  u_text :: "string option"

text \<open>The \<^verbatim>\<open>where\<close> clause shared by update and delete: id and owner both match.\<close>

definition ownedBy :: "string \<Rightarrow> string \<Rightarrow> review \<Rightarrow> bool" where
  "ownedBy reviewId userId r = (r_id r = reviewId \<and> r_userId r = Some userId)"

definition applyUpdate :: "nat \<Rightarrow> updateReviewArg \<Rightarrow> review \<Rightarrow> review" where
  "applyUpdate now updates r =
     r\<lparr> r_rating := (case u_rating updates of None \<Rightarrow> r_rating r | Some v \<Rightarrow> v),
        r_text := (case u_text updates of None \<Rightarrow> r_text r | Some v \<Rightarrow> v),
        r_isEdited := Some True,
        r_editedAt := Some now,
        r_updatedAt := Some now \<rparr>"

definition updateReview :: "nat \<Rightarrow> db \<Rightarrow> string \<Rightarrow> string \<Rightarrow> updateReviewArg \<Rightarrow> error + (review \<times> db)" where
  "updateReview now d reviewId userId updates =
     (case map (applyUpdate now updates) (filter (ownedBy reviewId userId) (reviews d)) of
        [] \<Rightarrow> Inl ReviewNotFoundOrUnauthorized
      | updatedReview # _ \<Rightarrow>
          Inr (updatedReview,
               d\<lparr>reviews := map (\<lambda>r. if ownedBy reviewId userId r then applyUpdate now updates r else r)
                                 (reviews d)\<rparr>))"

definition deleteReview :: "db \<Rightarrow> string \<Rightarrow> string \<Rightarrow> error + db" where
  "deleteReview d reviewId userId =
     (let rowCount = length (filter (ownedBy reviewId userId) (reviews d))
      in if rowCount = 0 then Inl ReviewNotFoundOrUnauthorized
         else Inr (d\<lparr>reviews := filter (\<lambda>r. \<not> ownedBy reviewId userId r) (reviews d)\<rparr>))"

subsection \<open>The route \<^verbatim>\<open>POST /api/reviews\<close>\<close>

text \<open>
  The request body after JSON decoding, and \<^verbatim>\<open>insertReviewSchema.safeParse\<close> on it:
  the rating lies in 1..5 and the text has at most 2000 characters. (A body whose
  properties are missing or of another type is rejected in the same way; a rating that
  is not an integer is outside this model.)
\<close>

record reviewBody =
  b_shopId :: string
  b_rating :: int
  b_text :: string

definition insertReviewSchema :: "reviewBody \<Rightarrow> reviewBody option" where
  "insertReviewSchema body =
     (if 1 \<le> b_rating body \<and> b_rating body \<le> 5 \<and> length (b_text body) \<le> 2000
      then Some body else None)"

record sessionUser =
  su_id :: string
  su_name :: string

datatype reviewReply = Created review | BadRequest | Conflict | InternalError

fun status :: "reviewReply \<Rightarrow> nat" where
  "status (Created _) = 201"
| "status BadRequest = 400"
| "status Conflict = 409"
| "status InternalError = 500"

text \<open>
  \<^verbatim>\<open>createUserHash\<close> of the auth module, for the fingerprint of an anonymous author.
  Its first statement is \<^verbatim>\<open>require('crypto')\<close>, in a module that otherwise uses
  \<^verbatim>\<open>import\<close> only. Whether the name \<^verbatim>\<open>require\<close> is defined there depends on how the
  module is loaded, which the sources do not fix: loaded as CommonJS the call returns
  the crypto module, loaded as an ES module the name is not defined and the call raises
  a \<^verbatim>\<open>ReferenceError\<close>. The parameter \<open>requireCrypto\<close> is that outcome: \<open>None\<close> for
  the raise, or the function from a text to the hex digest of its SHA-256. Of the
  request, the function reads the address and the user agent.
\<close>

record request =
  req_ip :: "string option"
  req_remoteAddress :: "string option"
  req_userAgent :: "string option"

definition orElse :: "string option \<Rightarrow> string \<Rightarrow> string" where
  "orElse v dflt = (case v of None \<Rightarrow> dflt | Some s \<Rightarrow> if s = [] then dflt else s)"

definition createUserHash :: "(string \<Rightarrow> string) option \<Rightarrow> request \<Rightarrow> error + string" where
  "createUserHash requireCrypto req =
     (case requireCrypto of
        None \<Rightarrow> Inl ReferenceError
      | Some sha256hex \<Rightarrow>
          (let ip = orElse (req_ip req) (orElse (req_remoteAddress req) ''unknown'');
               userAgent = orElse (req_userAgent req) ''unknown''
           in Inr (sha256hex (ip @ userAgent))))"

text \<open>
  The handler behind the rate limiter. \<open>currentUser\<close> is \<^verbatim>\<open>getCurrentUser(req)\<close>. The
  object \<^verbatim>\<open>reviewData\<close> is built inside the \<^verbatim>\<open>try\<close>: for an anonymous request its
  \<^verbatim>\<open>userHash\<close> is \<^verbatim>\<open>createUserHash(req)\<close>, for a logged-in user it is null and the
  function is not called. A raise of \<^verbatim>\<open>createUserHash\<close> or of the storage call ends
  in the \<^verbatim>\<open>catch\<close> with status 500, and nothing is stored.
\<close>

definition postReview ::
  "string \<Rightarrow> nat \<Rightarrow> (string \<Rightarrow> string) option \<Rightarrow> db \<Rightarrow> request \<Rightarrow> sessionUser option
     \<Rightarrow> reviewBody \<Rightarrow> reviewReply \<times> db" where
  "postReview newId now requireCrypto d req currentUser body =
     (case insertReviewSchema body of
        None \<Rightarrow> (BadRequest, d)
      | Some v \<Rightarrow>
          if (case currentUser of
                None \<Rightarrow> False
              | Some u \<Rightarrow> getUserReviewForShop d (su_id u) (b_shopId v) \<noteq> None)
          then (Conflict, d)
          else
            (case (case currentUser of
                     Some _ \<Rightarrow> Inr None
                   | None \<Rightarrow>
                       (case createUserHash requireCrypto req of
                          Inl e \<Rightarrow> Inl e
                        | Inr h \<Rightarrow> Inr (Some h))) of
               Inl _ \<Rightarrow> (InternalError, d)
             | Inr userHash \<Rightarrow>
                 (case createReview newId now d
                         \<lparr> a_shopId = b_shopId v, a_rating = b_rating v, a_text = b_text v,
                           a_authorName =
                             (case currentUser of None \<Rightarrow> None | Some u \<Rightarrow> Some (su_name u)),
                           a_userHash = userHash,
                           a_userId = (case currentUser of None \<Rightarrow> None | Some u \<Rightarrow> Some (su_id u)),
                           a_isAnonymous = Some (currentUser = None) \<rparr> of
                    Inl _ \<Rightarrow> (InternalError, d)
                  | Inr (review, d') \<Rightarrow> (Created review, d'))))"

section \<open>Favorites\<close>

text \<open>
  \<^verbatim>\<open>addUserFavorite\<close>: select the rows of the pair; return the first one if there is
  any, insert otherwise (both columns are foreign keys). \<^verbatim>\<open>removeUserFavorite\<close>:
  delete the rows of the pair, whatever their number.
\<close>

definition favoriteOf :: "string \<Rightarrow> string \<Rightarrow> userFavorite \<Rightarrow> bool" where
  "favoriteOf userId shopId f = (fav_userId f = userId \<and> fav_shopId f = shopId)"

definition addUserFavorite :: "string \<Rightarrow> nat \<Rightarrow> db \<Rightarrow> string \<Rightarrow> string \<Rightarrow> error + (userFavorite \<times> db)" where
  "addUserFavorite newId now d userId shopId =
     (case filter (favoriteOf userId shopId) (userFavorites d) of
        existing # _ \<Rightarrow> Inr (existing, d)
      | [] \<Rightarrow>
          if userId \<notin> set (users d) \<or> shopId \<notin> set (map s_id (shops d))
          then Inl ForeignKeyViolation
          else (let favorite = \<lparr> fav_id = newId, fav_userId = userId, fav_shopId = shopId,
                                  fav_createdAt = Some now \<rparr>
                in Inr (favorite, d\<lparr>userFavorites := userFavorites d @ [favorite]\<rparr>)))"

definition removeUserFavorite :: "db \<Rightarrow> string \<Rightarrow> string \<Rightarrow> error + db" where
  "removeUserFavorite d userId shopId =
     Inr (d\<lparr>userFavorites := filter (\<lambda>f. \<not> favoriteOf userId shopId f) (userFavorites d)\<rparr>)"

section \<open>The shop query engine\<close>

subsection \<open>What the database computes\<close>

text \<open>
  \<^verbatim>\<open>AVG(reviews.rating)\<close> over the reviews joined to one shop: \<^verbatim>\<open>NULL\<close> when there is
  none, the mean otherwise. The \<^verbatim>\<open>numeric\<close> value and the JavaScript number read
  from it are kept as the exact rational (the driver's string and \<^verbatim>\<open>Number\<close> round
  both query paths in the same way). \<^verbatim>\<open>Number(null)\<close> is 0, and \<^verbatim>\<open>x || 0\<close> replaces
  a falsy number by 0.
\<close>

definition ratingsOf :: "db \<Rightarrow> string \<Rightarrow> int list" where
  "ratingsOf d shopId = map r_rating (filter (\<lambda>r. r_shopId r = shopId) (reviews d))"

definition sql_avg :: "int list \<Rightarrow> rat option" where
  "sql_avg xs = (if xs = [] then None else Some (of_int (sum_list xs) / of_nat (length xs)))"

definition coalesce :: "rat option \<Rightarrow> rat \<Rightarrow> rat option" where
  "coalesce v dflt = (case v of None \<Rightarrow> Some dflt | Some x \<Rightarrow> Some x)"

definition js_Number :: "rat option \<Rightarrow> rat" where
  "js_Number v = (case v of None \<Rightarrow> 0 | Some x \<Rightarrow> x)"

definition or_zero :: "rat \<Rightarrow> rat" where
  "or_zero x = (if x = 0 then 0 else x)"

text \<open>
  \<^verbatim>\<open>ORDER BY\<close>: a stable insertion sort on the relation "comes no later than"; rows that
  compare equal keep their table order. Ascending order puts \<^verbatim>\<open>NULL\<close> last and
  descending order puts it first, as PostgreSQL does.
\<close>

fun insertBy :: "('a \<Rightarrow> 'a \<Rightarrow> bool) \<Rightarrow> 'a \<Rightarrow> 'a list \<Rightarrow> 'a list" where
  "insertBy noLater x [] = [x]"
| "insertBy noLater x (y # ys) = (if noLater x y then x # y # ys else y # insertBy noLater x ys)"

definition stableSort :: "('a \<Rightarrow> 'a \<Rightarrow> bool) \<Rightarrow> 'a list \<Rightarrow> 'a list" where
  "stableSort noLater xs = foldr (insertBy noLater) xs []"

definition ascLess :: "('a :: linorder) option \<Rightarrow> 'a option \<Rightarrow> bool" where
  "ascLess a b =
     (case a of None \<Rightarrow> False | Some x \<Rightarrow> (case b of None \<Rightarrow> True | Some y \<Rightarrow> x < y))"

definition descLess :: "('a :: linorder) option \<Rightarrow> 'a option \<Rightarrow> bool" where
  "descLess a b =
     (case a of None \<Rightarrow> b \<noteq> None | Some x \<Rightarrow> (case b of None \<Rightarrow> False | Some y \<Rightarrow> y < x))"

subsection \<open>\<^verbatim>\<open>DatabaseStorage.getShops\<close>\<close>

text \<open>
  The filter object. The coordinates are doubles; their type \<open>'c\<close> is left open, and the
  two operations on them that the engine uses come as a parameter: \<^verbatim>\<open>parseFloat\<close> on a
  shop's decimal columns, and \<^verbatim>\<open>calculateDistance\<close>, whose result
  \<^verbatim>\<open>Math.round(distance * 1000)\<close> is an integer number of metres or \<^verbatim>\<open>NaN\<close>.
\<close>

record 'c filters =
  f_city :: "string option"
  f_lat :: "'c option"
  f_lng :: "'c option"
  f_radius :: "jsnum option"
  f_openNow :: "bool option"
  f_halal :: "bool option"
  f_veg :: "bool option"
  f_hasOffers :: "bool option"
  f_hasDelivery :: "bool option"
  f_sortBy :: "string option"
  f_limit :: "jsnum option"
  f_offset :: "jsnum option"

record 'c geo =
  parseFloat :: "string \<Rightarrow> 'c"
  calculateDistance :: "'c \<Rightarrow> 'c \<Rightarrow> 'c \<Rightarrow> 'c \<Rightarrow> jsnum"

text \<open>A row of the aggregate query; \<open>it_distance\<close> is \<open>None\<close> until the property is added.\<close>

record item =
  it_shop :: shop
  it_avgRating :: "rat option"
  it_reviewCount :: nat
  it_distance :: "jsnum option"

record shopWithDetails =
  swd_shop :: shop
  swd_openingHours :: "openingHoursRow list"
  swd_reviews :: "review list"
  swd_photos :: "photo list"
  avgRating :: rat
  reviewCount :: nat
  distance :: "jsnum option"

text \<open>
  The \<^verbatim>\<open>where\<close> clause: published, and each optional condition only when its filter
  value is truthy.
\<close>

definition shopMatches :: "('c, 'x) filters_scheme \<Rightarrow> shop \<Rightarrow> bool" where
  "shopMatches f s =
     (s_isPublished s = Some True
      \<and> (if truthy (f_city f) then Some (s_city s) = f_city f else True)
      \<and> (if f_halal f = Some True then s_halal s = Some True else True)
      \<and> (if f_veg f = Some True then s_veg s = Some True else True)
      \<and> (if f_hasOffers f = Some True then s_hasOffers s = Some True else True)
      \<and> (if f_hasDelivery f = Some True then s_hasDelivery s = Some True else True))"

text \<open>
  The left join grouped by the shop's primary key gives one row per matching shop, with
  the aggregates over that shop's reviews.
\<close>

definition aggregateRow :: "db \<Rightarrow> shop \<Rightarrow> item" where
  "aggregateRow d s =
     \<lparr> it_shop = s,
       it_avgRating = coalesce (sql_avg (ratingsOf d (s_id s))) 0,
       it_reviewCount = length (ratingsOf d (s_id s)),
       it_distance = None \<rparr>"

definition avgKey :: "db \<Rightarrow> item \<Rightarrow> rat option" where
  "avgKey d i = sql_avg (ratingsOf d (s_id (it_shop i)))"

definition priceKey :: "item \<Rightarrow> int option" where
  "priceKey i = s_priceLevel (it_shop i)"

definition baseQuery :: "db \<Rightarrow> ('c, 'x) filters_scheme \<Rightarrow> item list" where
  "baseQuery d f =
     (let rows = map (aggregateRow d) (filter (shopMatches f) (shops d))
      in if f_sortBy f = Some ''rating''
           then stableSort (\<lambda>a b. \<not> descLess (avgKey d b) (avgKey d a)) rows
         else if f_sortBy f = Some ''price''
           then stableSort (\<lambda>a b. \<not> ascLess (priceKey b) (priceKey a)) rows
         else if f_sortBy f \<noteq> Some ''distance''
           then stableSort (\<lambda>a b. ascLess (priceKey a) (priceKey b)
                                  \<or> (\<not> ascLess (priceKey b) (priceKey a)
                                      \<and> \<not> descLess (avgKey d b) (avgKey d a))) rows
         else rows)"

text \<open>
  \<^verbatim>\<open>filteredShops.sort((a, b) => a.distance - b.distance)\<close>: the sort is stable, and a
  comparator result that is \<^verbatim>\<open>NaN\<close> counts as 0.
\<close>

definition distanceOf :: "item \<Rightarrow> jsnum" where
  "distanceOf i = (case it_distance i of None \<Rightarrow> NaN | Some v \<Rightarrow> v)"

definition distanceBefore :: "item \<Rightarrow> item \<Rightarrow> bool" where
  "distanceBefore a b =
     (case js_sub (distanceOf a) (distanceOf b) of NaN \<Rightarrow> True | Fin v \<Rightarrow> v \<le> 0)"

text \<open>The rows after the distance block, before pagination.\<close>

definition queryRows :: "'c geo \<Rightarrow> db \<Rightarrow> ('c, 'x) filters_scheme \<Rightarrow> item list" where
  "queryRows E d f =
     (let result = baseQuery d f
      in case (f_lat f, f_lng f) of
           (Some lat, Some lng) \<Rightarrow>
             (let shopsWithDistance =
                    map (\<lambda>item. item\<lparr>it_distance :=
                           Some (calculateDistance E lat lng
                                   (parseFloat E (s_lat (it_shop item)))
                                   (parseFloat E (s_lng (it_shop item))))\<rparr>) result;
                  filteredShops =
                    (case f_radius f of
                       None \<Rightarrow> shopsWithDistance
                     | Some radius \<Rightarrow> filter (\<lambda>item. js_le (distanceOf item) radius) shopsWithDistance)
              in if f_sortBy f = Some ''distance''
                 then stableSort distanceBefore filteredShops
                 else filteredShops)
         | _ \<Rightarrow> result)"

text \<open>
  The per-shop reads: opening hours, the five most recent reviews, photos. Descending
  \<^verbatim>\<open>createdAt\<close> puts \<^verbatim>\<open>NULL\<close> first.
\<close>

definition recentFirst :: "review list \<Rightarrow> review list" where
  "recentFirst rs = stableSort (\<lambda>a b. \<not> descLess (r_createdAt b) (r_createdAt a)) rs"

definition hydrate :: "db \<Rightarrow> item \<Rightarrow> shopWithDetails" where
  "hydrate d i =
     \<lparr> swd_shop = it_shop i,
       swd_openingHours = filter (\<lambda>h. oh_shopId h = s_id (it_shop i)) (openingHours d),
       swd_reviews = take 5 (recentFirst (filter (\<lambda>r. r_shopId r = s_id (it_shop i)) (reviews d))),
       swd_photos = filter (\<lambda>p. ph_shopId p = s_id (it_shop i)) (photos d),
       avgRating = js_Number (it_avgRating i),
       reviewCount = it_reviewCount i,
       distance = it_distance i \<rparr>"

text \<open>The destructuring defaults \<^verbatim>\<open>limit = 50, offset = 0\<close>.\<close>

definition pageLimit :: "('c, 'x) filters_scheme \<Rightarrow> jsnum" where
  "pageLimit f = (case f_limit f of None \<Rightarrow> Fin 50 | Some v \<Rightarrow> v)"

definition pageOffset :: "('c, 'x) filters_scheme \<Rightarrow> jsnum" where
  "pageOffset f = (case f_offset f of None \<Rightarrow> Fin 0 | Some v \<Rightarrow> v)"

definition getShops :: "'c geo \<Rightarrow> db \<Rightarrow> ('c, 'x) filters_scheme \<Rightarrow> shopWithDetails list" where
  "getShops E d f =
     (let limit = pageLimit f;
          offset = pageOffset f;
          result = queryRows E d f;
          paginatedResult = slice result offset (js_add offset limit)
      in map (hydrate d) paginatedResult)"

subsection \<open>\<^verbatim>\<open>DatabaseStorage.getShopBySlug\<close>\<close>

definition getShopBySlug :: "db \<Rightarrow> string \<Rightarrow> shopWithDetails option" where
  "getShopBySlug d slug =
     (case filter (\<lambda>s. s_slug s = slug) (shops d) of
        [] \<Rightarrow> None
      | shop # _ \<Rightarrow>
          Some \<lparr> swd_shop = shop,
                 swd_openingHours =
                   stableSort (\<lambda>a b. weekday a \<le> weekday b)
                     (filter (\<lambda>h. oh_shopId h = s_id shop) (openingHours d)),
                 swd_reviews = recentFirst (filter (\<lambda>r. r_shopId r = s_id shop) (reviews d)),
                 swd_photos = filter (\<lambda>p. ph_shopId p = s_id shop) (photos d),
                 avgRating = or_zero (js_Number (sql_avg (ratingsOf d (s_id shop)))),
                 reviewCount = length (ratingsOf d (s_id shop)),
                 distance = None \<rparr>)"

subsection \<open>The routes \<^verbatim>\<open>GET /api/shops\<close> and \<^verbatim>\<open>GET /api/shops/:slug\<close>\<close>

text \<open>The query string: every parameter is absent or a string.\<close>

record query =
  q_city :: "string option"
  q_lat :: "string option"
  q_lng :: "string option"
  q_radius :: "string option"
  q_open_now :: "string option"
  q_halal :: "string option"
  q_veg :: "string option"
  q_has_offers :: "string option"
  q_has_delivery :: "string option"
  q_by :: "string option"
  q_limit :: "string option"
  q_offset :: "string option"

text \<open>
  \<^verbatim>\<open>v ? parse(v) : undefined\<close>, and the destructuring default of \<^verbatim>\<open>limit\<close> and
  \<^verbatim>\<open>offset\<close> (the number given as default goes through \<^verbatim>\<open>parseInt\<close> as its
  decimal text).
\<close>

definition parsedIfTruthy :: "(string \<Rightarrow> 'a) \<Rightarrow> string option \<Rightarrow> 'a option" where
  "parsedIfTruthy parse v =
     (case v of None \<Rightarrow> None | Some s \<Rightarrow> if s = [] then None else Some (parse s))"

definition withDefault :: "string \<Rightarrow> string option \<Rightarrow> string" where
  "withDefault dflt v = (case v of None \<Rightarrow> dflt | Some s \<Rightarrow> s)"

definition filtersOfQuery :: "'c geo \<Rightarrow> query \<Rightarrow> 'c filters" where
  "filtersOfQuery E q =
     \<lparr> f_city = q_city q,
       f_lat = parsedIfTruthy (parseFloat E) (q_lat q),
       f_lng = parsedIfTruthy (parseFloat E) (q_lng q),
       f_radius = parsedIfTruthy parseInt (q_radius q),
       f_openNow = Some (q_open_now q = Some ''true''),
       f_halal = Some (q_halal q = Some ''true''),
       f_veg = Some (q_veg q = Some ''true''),
       f_hasOffers = Some (q_has_offers q = Some ''true''),
       f_hasDelivery = Some (q_has_delivery q = Some ''true''),
       f_sortBy = q_by q,
       f_limit = Some (parseInt (withDefault ''50'' (q_limit q))),
       f_offset = Some (parseInt (withDefault ''0'' (q_offset q))) \<rparr>"

text \<open>
  The list handler. No step of it raises (\<^verbatim>\<open>parseInt\<close> and \<^verbatim>\<open>parseFloat\<close> return
  \<^verbatim>\<open>NaN\<close>, a comparison with \<^verbatim>\<open>NaN\<close> is false, \<^verbatim>\<open>slice\<close> clamps), so its
  \<^verbatim>\<open>catch\<close> branch is not taken and the reply is the list.
\<close>

definition getApiShops :: "'c geo \<Rightarrow> db \<Rightarrow> query \<Rightarrow> shopWithDetails list" where
  "getApiShops E d q = getShops E d (filtersOfQuery E q)"

datatype detailReply = ShopJson shopWithDetails | ShopNotFound

definition getApiShopBySlug :: "db \<Rightarrow> string \<Rightarrow> detailReply" where
  "getApiShopBySlug d slug =
     (case getShopBySlug d slug of None \<Rightarrow> ShopNotFound | Some shop \<Rightarrow> ShopJson shop)"

section \<open>Distance\<close>

text \<open>
  The arithmetic of doubles is a parameter: the operators and the \<^verbatim>\<open>Math\<close> functions
  the two distance functions use, over a type \<open>'n\<close> of numbers. Whatever these
  operations are, the same operations applied to the same arguments give the same
  number.
\<close>

record 'n math =
  m_lit :: "int \<Rightarrow> 'n"
  m_PI :: 'n
  m_plus :: "'n \<Rightarrow> 'n \<Rightarrow> 'n"
  m_minus :: "'n \<Rightarrow> 'n \<Rightarrow> 'n"
  m_times :: "'n \<Rightarrow> 'n \<Rightarrow> 'n"
  m_over :: "'n \<Rightarrow> 'n \<Rightarrow> 'n"
  m_sin :: "'n \<Rightarrow> 'n"
  m_cos :: "'n \<Rightarrow> 'n"
  m_sqrt :: "'n \<Rightarrow> 'n"
  m_atan2 :: "'n \<Rightarrow> 'n \<Rightarrow> 'n"
  m_round :: "'n \<Rightarrow> 'n"

text \<open>The server: \<^verbatim>\<open>DatabaseStorage.degreesToRadians\<close> and \<^verbatim>\<open>calculateDistance\<close>.\<close>

definition degreesToRadians :: "'n math \<Rightarrow> 'n \<Rightarrow> 'n" where
  "degreesToRadians M degrees = m_times M degrees (m_over M (m_PI M) (m_lit M 180))"

definition storage_calculateDistance :: "'n math \<Rightarrow> 'n \<Rightarrow> 'n \<Rightarrow> 'n \<Rightarrow> 'n \<Rightarrow> 'n" where
  "storage_calculateDistance M lat1 lng1 lat2 lng2 =
     (let R = m_lit M 6371;
          dLat = degreesToRadians M (m_minus M lat2 lat1);
          dLng = degreesToRadians M (m_minus M lng2 lng1);
          a = m_plus M
                (m_times M (m_sin M (m_over M dLat (m_lit M 2))) (m_sin M (m_over M dLat (m_lit M 2))))
                (m_times M
                   (m_times M
                      (m_times M (m_cos M (degreesToRadians M lat1)) (m_cos M (degreesToRadians M lat2)))
                      (m_sin M (m_over M dLng (m_lit M 2))))
                   (m_sin M (m_over M dLng (m_lit M 2))));
          c = m_times M (m_lit M 2) (m_atan2 M (m_sqrt M a) (m_sqrt M (m_minus M (m_lit M 1) a)));
          distance = m_times M R c
      in m_round M (m_times M distance (m_lit M 1000)))"

text \<open>The client: \<^verbatim>\<open>toRadians\<close> and \<^verbatim>\<open>calculateDistance\<close> of the utilities module.\<close>

definition toRadians :: "'n math \<Rightarrow> 'n \<Rightarrow> 'n" where
  "toRadians M degrees = m_times M degrees (m_over M (m_PI M) (m_lit M 180))"

definition utils_calculateDistance :: "'n math \<Rightarrow> 'n \<Rightarrow> 'n \<Rightarrow> 'n \<Rightarrow> 'n \<Rightarrow> 'n" where
  "utils_calculateDistance M lat1 lng1 lat2 lng2 =
     (let R = m_lit M 6371;
          dLat = toRadians M (m_minus M lat2 lat1);
          dLng = toRadians M (m_minus M lng2 lng1);
          a = m_plus M
                (m_times M (m_sin M (m_over M dLat (m_lit M 2))) (m_sin M (m_over M dLat (m_lit M 2))))
                (m_times M
                   (m_times M
                      (m_times M (m_cos M (toRadians M lat1)) (m_cos M (toRadians M lat2)))
                      (m_sin M (m_over M dLng (m_lit M 2))))
                   (m_sin M (m_over M dLng (m_lit M 2))));
          c = m_times M (m_lit M 2) (m_atan2 M (m_sqrt M a) (m_sqrt M (m_minus M (m_lit M 1) a)));
          distance = m_times M R c
      in m_over M (m_round M (m_times M distance (m_lit M 100))) (m_lit M 100))"

text \<open>
  The specification's distance, written from its words: the Haversine great-circle
  formula with Earth radius 6371 km, in kilometres and unrounded. With \<open>\<phi>\<close> and \<open>\<lambda>\<close> the
  latitudes and longitudes in radians, \<open>a = sin\<^sup>2(\<Delta>\<phi>/2) + cos \<phi>\<^sub>1 cos \<phi>\<^sub>2 sin\<^sup>2(\<Delta>\<lambda>/2)\<close>
  and \<open>d = R \<cdot> 2 \<cdot> atan2(\<surd>a, \<surd>(1 - a))\<close>.
\<close>

definition radians :: "'n math \<Rightarrow> 'n \<Rightarrow> 'n" where
  "radians M deg = m_times M deg (m_over M (m_PI M) (m_lit M 180))"

definition haversine_a :: "'n math \<Rightarrow> 'n \<Rightarrow> 'n \<Rightarrow> 'n \<Rightarrow> 'n \<Rightarrow> 'n" where
  "haversine_a M lat1 lng1 lat2 lng2 =
     m_plus M
       (m_times M (m_sin M (m_over M (radians M (m_minus M lat2 lat1)) (m_lit M 2)))
                (m_sin M (m_over M (radians M (m_minus M lat2 lat1)) (m_lit M 2))))
       (m_times M
          (m_times M
             (m_times M (m_cos M (radians M lat1)) (m_cos M (radians M lat2)))
             (m_sin M (m_over M (radians M (m_minus M lng2 lng1)) (m_lit M 2))))
          (m_sin M (m_over M (radians M (m_minus M lng2 lng1)) (m_lit M 2))))"

definition haversine_km :: "'n math \<Rightarrow> 'n \<Rightarrow> 'n \<Rightarrow> 'n \<Rightarrow> 'n \<Rightarrow> 'n" where
  "haversine_km M lat1 lng1 lat2 lng2 =
     m_times M (m_lit M 6371)
       (m_times M (m_lit M 2)
          (m_atan2 M (m_sqrt M (haversine_a M lat1 lng1 lat2 lng2))
                   (m_sqrt M (m_minus M (m_lit M 1) (haversine_a M lat1 lng1 lat2 lng2)))))"

section \<open>Opening hours\<close>

text \<open>
  \<^verbatim>\<open>isShopOpen\<close> of the utilities module. The clock is read once: \<open>currentDay\<close> is
  \<^verbatim>\<open>now.getDay()\<close>, \<open>hours\<close> and \<open>minutes\<close> are \<^verbatim>\<open>now.getHours()\<close> and
  \<^verbatim>\<open>now.getMinutes()\<close>. \<^verbatim>\<open>replace(':', '')\<close> removes the first colon only.
\<close>

fun replaceColon :: "string \<Rightarrow> string" where
  "replaceColon [] = []"
| "replaceColon (c # cs) = (if c = CHR '':'' then cs else c # replaceColon cs)"

definition isShopOpen :: "openingHoursRow list \<Rightarrow> int \<Rightarrow> int \<Rightarrow> int \<Rightarrow> bool" where
  "isShopOpen hoursList currentDay hours minutes =
     (if hoursList = [] then False
      else
        (let currentTime = hours * 100 + minutes
         in case find (\<lambda>h. weekday h = currentDay) hoursList of
              None \<Rightarrow> False
            | Some todayHours \<Rightarrow>
                (case (openTime todayHours, closeTime todayHours) of
                   (Some opens, Some closes) \<Rightarrow>
                     if opens = [] \<or> closes = [] then False
                     else
                       (case (parseInt (replaceColon opens), parseInt (replaceColon closes)) of
                          (Fin openT, Fin closeT) \<Rightarrow>
                            if closeT < openT
                            then currentTime \<ge> openT \<or> currentTime \<le> closeT
                            else currentTime \<ge> openT \<and> currentTime \<le> closeT
                        | _ \<Rightarrow> False)
                 | _ \<Rightarrow> False)))"

text \<open>
  A time of day in the schema's \<^verbatim>\<open>HH:MM\<close> format, and the minute of the day it names.
\<close>

definition digitChar :: "nat \<Rightarrow> char" where
  "digitChar n = char_of (48 + n)"

definition hhmm :: "nat \<Rightarrow> nat \<Rightarrow> string" where
  "hhmm h m = [digitChar (h div 10), digitChar (h mod 10), CHR '':'',
               digitChar (m div 10), digitChar (m mod 10)]"

definition minuteOfDay :: "nat \<Rightarrow> nat \<Rightarrow> int" where
  "minuteOfDay h m = int (h * 60 + m)"

section \<open>Properties stated in the specification's terms\<close>

text \<open>A review with this id exists and belongs to this user.\<close>

definition isOwnedReview :: "db \<Rightarrow> string \<Rightarrow> string \<Rightarrow> bool" where
  "isOwnedReview d reviewId ownerId = list_ex (ownedBy reviewId ownerId) (reviews d)"

text \<open>The number of favorite records of a pair.\<close>

definition favoriteCount :: "db \<Rightarrow> string \<Rightarrow> string \<Rightarrow> nat" where
  "favoriteCount d userId shopId = length (filter (favoriteOf userId shopId) (userFavorites d))"

text \<open>
  The filter with one page selected, and the unpaginated full result: every row that
  is left after filtering and sorting, hydrated.
\<close>

definition page :: "('c, 'x) filters_scheme \<Rightarrow> int \<Rightarrow> int \<Rightarrow> ('c, 'x) filters_scheme" where
  "page f offset limit = f\<lparr>f_limit := Some (Fin limit), f_offset := Some (Fin offset)\<rparr>"

definition fullResult :: "'c geo \<Rightarrow> db \<Rightarrow> ('c, 'x) filters_scheme \<Rightarrow> shopWithDetails list" where
  "fullResult E d f = map (hydrate d) (queryRows E d f)"

text \<open>
  The distance of a shop from the reference point, and the radius condition: it applies
  only when reference point and radius are all given.
\<close>

definition shopDistance :: "'c geo \<Rightarrow> 'c \<Rightarrow> 'c \<Rightarrow> shop \<Rightarrow> jsnum" where
  "shopDistance E lat lng s =
     calculateDistance E lat lng (parseFloat E (s_lat s)) (parseFloat E (s_lng s))"

definition withinRadius :: "'c geo \<Rightarrow> ('c, 'x) filters_scheme \<Rightarrow> shop \<Rightarrow> bool" where
  "withinRadius E f s =
     (case (f_lat f, f_lng f, f_radius f) of
        (Some lat, Some lng, Some radius) \<Rightarrow> js_le (shopDistance E lat lng s) radius
      | _ \<Rightarrow> True)"

text \<open>
  The aggregate rating of the specification: the mean of the review ratings, and 0 when
  there is no review.
\<close>

definition mean :: "int list \<Rightarrow> rat" where
  "mean xs = (if xs = [] then 0 else of_int (sum_list xs) / of_nat (length xs))"

text \<open>
  What holds of every row the engine handles: its shop is a row of the table that
  passes the \<^verbatim>\<open>where\<close> clause, and its aggregates are those of the shop's reviews.
\<close>

definition rowOf :: "db \<Rightarrow> ('c, 'x) filters_scheme \<Rightarrow> item \<Rightarrow> bool" where
  "rowOf d f i =
     (it_shop i \<in> set (shops d) \<and> shopMatches f (it_shop i)
      \<and> it_avgRating i = coalesce (sql_avg (ratingsOf d (s_id (it_shop i)))) 0
      \<and> it_reviewCount i = length (ratingsOf d (s_id (it_shop i))))"

section \<open>A small directory\<close>

text \<open>
  Four shops, one of them a draft and one without reviews, with a favorite and opening
  hours; and the distances in metres from the reference point (50.9167, 13.3417) that
  \<^verbatim>\<open>calculateDistance\<close> gives for them. In this instance a coordinate is written as
  its decimal text, and any other pair of points has the distance \<^verbatim>\<open>NaN\<close>.
\<close>

definition mkShop ::
  "string \<Rightarrow> string \<Rightarrow> string \<Rightarrow> string \<Rightarrow> string \<Rightarrow> int \<Rightarrow> bool \<Rightarrow> shop" where
  "mkShop i slug la lo cty price pub =
     \<lparr> s_id = i, s_name = slug, s_slug = slug, s_lat = la, s_lng = lo, s_city = cty,
       s_priceLevel = Some price, s_halal = Some True, s_veg = Some False,
       s_isPublished = Some pub, s_hasOffers = Some False, s_hasDelivery = Some False \<rparr>"

definition mkReview :: "string \<Rightarrow> string \<Rightarrow> string option \<Rightarrow> int \<Rightarrow> nat \<Rightarrow> review" where
  "mkReview i sid uid rating t =
     \<lparr> r_id = i, r_shopId = sid, r_userId = uid, r_rating = rating, r_text = ''gut'',
       r_userHash = (if uid = None then Some ''h1'' else None),
       r_authorName = (if uid = None then Some ''Anonymer Nutzer'' else None),
       r_isAnonymous = Some (uid = None), r_isEdited = Some False, r_editedAt = None,
       r_createdAt = Some t, r_updatedAt = Some t \<rparr>"

definition shopKing :: shop where
  "shopKing = mkShop ''s1'' ''doener-king'' ''50.9180000'' ''13.3440000'' ''Freiberg'' 1 True"

definition shopGrill :: shop where
  "shopGrill = mkShop ''s2'' ''chemnitz-grill'' ''50.8278000'' ''12.9214000'' ''Chemnitz'' 3 True"

definition shopDraft :: shop where
  "shopDraft = mkShop ''s3'' ''entwurf-imbiss'' ''51.0504000'' ''13.7373000'' ''Dresden'' 2 False"

definition shopNeu :: shop where
  "shopNeu = mkShop ''s4'' ''neu-imbiss'' ''50.9200000'' ''13.3500000'' ''Freiberg'' 2 True"

definition directory :: db where
  "directory =
     \<lparr> users = [''alice'', ''bob''],
       shops = [shopGrill, shopDraft, shopKing, shopNeu],
       openingHours =
         [\<lparr> oh_shopId = ''s1'', weekday = 1, openTime = Some ''11:00'', closeTime = Some ''22:00'' \<rparr>,
          \<lparr> oh_shopId = ''s1'', weekday = 5, openTime = Some ''18:00'', closeTime = Some ''02:00'' \<rparr>,
          \<lparr> oh_shopId = ''s1'', weekday = 0, openTime = None, closeTime = None \<rparr>],
       reviews =
         [mkReview ''r1'' ''s1'' (Some ''alice'') 5 10,
          mkReview ''r2'' ''s1'' None 4 20,
          mkReview ''r3'' ''s2'' (Some ''alice'') 4 30],
       photos = [],
       userFavorites =
         [\<lparr> fav_id = ''f1'', fav_userId = ''alice'', fav_shopId = ''s1'', fav_createdAt = Some 5 \<rparr>] \<rparr>"

definition tableGeo :: "string geo" where
  "tableGeo =
     \<lparr> parseFloat = (\<lambda>s. s),
       calculateDistance = (\<lambda>lat1 lng1 lat2 lng2.
         if (lat1, lng1) = (''50.9167'', ''13.3417'') then
           (if (lat2, lng2) = (''50.9180000'', ''13.3440000'') then Fin 217
            else if (lat2, lng2) = (''50.8278000'', ''12.9214000'') then Fin 31105
            else if (lat2, lng2) = (''51.0504000'', ''13.7373000'') then Fin 31431
            else if (lat2, lng2) = (''50.9200000'', ''13.3500000'') then Fin 688
            else NaN)
         else NaN) \<rparr>"

definition noQuery :: query where
  "noQuery =
     \<lparr> q_city = None, q_lat = None, q_lng = None, q_radius = None, q_open_now = None,
       q_halal = None, q_veg = None, q_has_offers = None, q_has_delivery = None,
       q_by = None, q_limit = None, q_offset = None \<rparr>"

definition noFilters :: "string filters" where
  "noFilters =
     \<lparr> f_city = None, f_lat = None, f_lng = None, f_radius = None, f_openNow = None,
       f_halal = None, f_veg = None, f_hasOffers = None, f_hasDelivery = None,
       f_sortBy = None, f_limit = None, f_offset = None \<rparr>"

definition alice :: sessionUser where
  "alice = \<lparr> su_id = ''alice'', su_name = ''Alice'' \<rparr>"

definition browser :: request where
  "browser = \<lparr> req_ip = Some ''203.0.113.7'', req_remoteAddress = None,
                req_userAgent = Some ''Mozilla/5.0'' \<rparr>"

definition reviewOfKing :: reviewBody where
  "reviewOfKing = \<lparr> b_shopId = ''s1'', b_rating = 3, b_text = ''gut'' \<rparr>"

definition bobArg :: createReviewArg where
  "bobArg = \<lparr> a_shopId = ''s2'', a_rating = 4, a_text = ''gut'', a_authorName = Some ''Bob'',
              a_userHash = None, a_userId = Some ''bob'', a_isAnonymous = Some False \<rparr>"

definition twoStars :: updateReviewArg where
  "twoStars = \<lparr> u_rating = Some 2, u_text = None \<rparr>"

definition nearQuery :: query where
  "nearQuery = noQuery\<lparr> q_lat := Some ''50.9167'', q_lng := Some ''13.3417'' \<rparr>"

definition nearFreiberg :: "string filters" where
  "nearFreiberg =
     noFilters\<lparr> f_lat := Some ''50.9167'', f_lng := Some ''13.3417'',
                f_sortBy := Some ''distance'' \<rparr>"

text \<open>
  The arithmetic of the reals as an instance, with \<^verbatim>\<open>Math.atan2\<close> by quadrant and
  \<^verbatim>\<open>Math.round\<close> rounding halves up.
\<close>

definition realMath :: "real math" where
  "realMath =
     \<lparr> m_lit = of_int, m_PI = pi, m_plus = (+), m_minus = (-), m_times = (*), m_over = (/),
       m_sin = sin, m_cos = cos, m_sqrt = sqrt,
       m_atan2 = (\<lambda>y x. if 0 < x then arctan (y / x)
                         else if x < 0 \<and> 0 \<le> y then arctan (y / x) + pi
                         else if x < 0 then arctan (y / x) - pi
                         else if 0 < y then pi / 2
                         else if y < 0 then - pi / 2
                         else 0),
       m_round = (\<lambda>x. of_int (round x)) \<rparr>"

section \<open>Reviews: identity, duplicates, ownership\<close>

lemma find_None_list_ex: "(find P xs = None) = (\<not> list_ex P xs)"
  by (induction xs) auto

lemma filter_Nil_list_ex: "(filter P xs = []) = (\<not> list_ex P xs)"
  by (induction xs) auto

lemma createReview_Inr:
  assumes "createReview newId now d a = Inr (row, d')"
  shows "r_authorName row = (if truthy (a_userId a) then None else Some ''Anonymer Nutzer'')"
    and "r_userId row = or_null (a_userId a)"
    and "d' = d\<lparr>reviews := reviews d @ [row]\<rparr>"
  using assms
  by (auto simp: createReview_def insertReviewRow_def Let_def split: if_splits)

text \<open>
  C10. The stored author name depends on the identity mode only: a caller-supplied
  \<^verbatim>\<open>authorName\<close> changes nothing; a review stored with a user id has the author name
  null, and one stored without has \<^verbatim>\<open>'Anonymer Nutzer'\<close>. Through the route, the name
  of the session user is discarded in the same way.
\<close>

theorem createReview_authorName:
  "createReview newId now d (a\<lparr>a_authorName := n\<rparr>) = createReview newId now d a
   \<and> (\<forall>row d'. createReview newId now d a = Inr (row, d') \<longrightarrow>
         r_authorName row = (if truthy (a_userId a) then None else Some ''Anonymer Nutzer'')
       \<and> (r_userId row \<noteq> None) = truthy (a_userId a)
       \<and> reviews d' = reviews d @ [row])
   \<and> (\<forall>row d'. postReview newId now rc d req cu body = (Created row, d') \<longrightarrow>
         r_authorName row =
           (if truthy (map_option su_id cu) then None else Some ''Anonymer Nutzer''))"
proof (intro conjI allI impI)
  show "createReview newId now d (a\<lparr>a_authorName := n\<rparr>) = createReview newId now d a"
    by (simp add: createReview_def)
next
  fix row d' assume h: "createReview newId now d a = Inr (row, d')"
  show "r_authorName row = (if truthy (a_userId a) then None else Some ''Anonymer Nutzer'')"
    by (rule createReview_Inr(1)[OF h])
  show "(r_userId row \<noteq> None) = truthy (a_userId a)"
    using createReview_Inr(2)[OF h] by (auto simp: or_null_def truthy_def split: option.splits)
  show "reviews d' = reviews d @ [row]"
    using createReview_Inr(3)[OF h] by simp
next
  fix row d' assume h: "postReview newId now rc d req cu body = (Created row, d')"
  then obtain a where a: "createReview newId now d a = Inr (row, d')"
      and u: "a_userId a = map_option su_id cu"
    by (auto simp: postReview_def split: option.splits if_splits sum.splits)
  show "r_authorName row = (if truthy (map_option su_id cu) then None else Some ''Anonymer Nutzer'')"
    using createReview_Inr(1)[OF a] u by simp
qed

theorem createReview_authorName_witness:
  "createReview ''r9'' 40 directory bobArg
     = Inr (mkReview ''r9'' ''s2'' (Some ''bob'') 4 40,
            directory\<lparr>reviews := reviews directory @ [mkReview ''r9'' ''s2'' (Some ''bob'') 4 40]\<rparr>)
   \<and> a_authorName bobArg = Some ''Bob''
   \<and> r_authorName (mkReview ''r9'' ''s2'' (Some ''bob'') 4 40) = None
   \<and> createReview ''r9'' 40 directory (bobArg\<lparr>a_authorName := Some ''Mallory''\<rparr>)
     = createReview ''r9'' 40 directory bobArg"
proof -
  have h: "createReview ''r9'' 40 directory bobArg
     = Inr (mkReview ''r9'' ''s2'' (Some ''bob'') 4 40,
            directory\<lparr>reviews := reviews directory @ [mkReview ''r9'' ''s2'' (Some ''bob'') 4 40]\<rparr>)"
    by (simp add: createReview_def insertReviewRow_def bobArg_def directory_def mkReview_def
          mkShop_def shopKing_def shopGrill_def shopDraft_def shopNeu_def or_null_def truthy_def
          Let_def)
  have t: "truthy (a_userId bobArg)"
    by (simp add: bobArg_def truthy_def)
  from createReview_authorName[where newId = "''r9''" and now = 40 and d = directory
        and a = bobArg and n = "Some ''Mallory''"] h t
  show ?thesis by (simp add: bobArg_def)
qed

lemma postReview_duplicate:
  assumes "currentUser = Some u" "insertReviewSchema body \<noteq> None"
      "list_ex (\<lambda>r. r_userId r = Some (su_id u) \<and> r_shopId r = b_shopId body) (reviews d)"
  shows "postReview newId now rc d req currentUser body = (Conflict, d)"
proof -
  have v: "insertReviewSchema body = Some body"
    using assms(2) by (auto simp: insertReviewSchema_def split: if_splits)
  have "getUserReviewForShop d (su_id u) (b_shopId body) \<noteq> None"
    using assms(3) by (simp add: getUserReviewForShop_def find_None_list_ex)
  then show ?thesis
    using assms(1) v by (simp add: postReview_def)
qed

lemma postReview_anonymous_unchecked:
  "fst (postReview newId now rc d req None body) \<noteq> Conflict"
  by (simp add: postReview_def split: option.splits sum.splits prod.splits)

lemma postReview_anonymous_stored:
  assumes "insertReviewSchema body \<noteq> None" "b_shopId body \<in> set (map s_id (shops d))"
  shows "\<exists>row. postReview newId now (Some sha256hex) d req None body
                 = (Created row, d\<lparr>reviews := reviews d @ [row]\<rparr>)
             \<and> r_shopId row = b_shopId body \<and> r_userId row = None"
proof -
  have v: "insertReviewSchema body = Some body"
    using assms(1) by (auto simp: insertReviewSchema_def split: if_splits)
  show ?thesis
    using assms(2) v
    by (simp add: postReview_def createUserHash_def createReview_def insertReviewRow_def
          or_null_def truthy_def Let_def)
qed

lemma postReview_anonymous_no_require:
  assumes "insertReviewSchema body \<noteq> None"
  shows "postReview newId now None d req None body = (InternalError, d)"
proof -
  have v: "insertReviewSchema body = Some body"
    using assms by (auto simp: insertReviewSchema_def split: if_splits)
  show ?thesis
    by (simp add: postReview_def createUserHash_def v)
qed

text \<open>
  C5. A logged-in user who already has a review for the shop gets status 409 and the
  database is unchanged (\<open>postReview_duplicate\<close>), and an anonymous submission is never
  checked for duplicates (\<open>postReview_anonymous_unchecked\<close>). But it is not always
  stored: where \<^verbatim>\<open>require\<close> is not defined in the auth module, the fingerprint
  computation raises, and a valid anonymous review for an existing shop of the small
  directory is answered with status 500 and the database is unchanged. Where
  \<^verbatim>\<open>require\<close> is defined, it is stored (\<open>postReview_anonymous_stored\<close>).
\<close>

theorem anonymous_review_without_require:
  "insertReviewSchema reviewOfKing = Some reviewOfKing
   \<and> b_shopId reviewOfKing \<in> set (map s_id (shops directory))
   \<and> postReview ''r9'' 40 None directory browser None reviewOfKing = (InternalError, directory)
   \<and> status InternalError = 500
   \<and> postReview ''r9'' 40 None directory browser (Some alice) reviewOfKing
       = (Conflict, directory)"
proof -
  have v: "insertReviewSchema reviewOfKing = Some reviewOfKing"
    by (simp add: insertReviewSchema_def reviewOfKing_def)
  have s: "b_shopId reviewOfKing \<in> set (map s_id (shops directory))"
    by (simp add: directory_def reviewOfKing_def shopKing_def mkShop_def)
  have e: "list_ex (\<lambda>r. r_userId r = Some (su_id alice) \<and> r_shopId r = b_shopId reviewOfKing)
             (reviews directory)"
    by (simp add: directory_def mkReview_def alice_def reviewOfKing_def)
  have a: "postReview ''r9'' 40 None directory browser None reviewOfKing
             = (InternalError, directory)"
    using v by (intro postReview_anonymous_no_require) simp
  have c: "postReview ''r9'' 40 None directory browser (Some alice) reviewOfKing
             = (Conflict, directory)"
    using v e by (intro postReview_duplicate[where u = alice]) simp_all
  show ?thesis using v s a c by simp
qed

lemma updateReview_unowned:
  assumes "\<not> list_ex (ownedBy rid owner) (reviews d)"
  shows "updateReview now d rid owner upd = Inl ReviewNotFoundOrUnauthorized"
proof -
  have "filter (ownedBy rid owner) (reviews d) = []"
    using assms by (simp add: filter_Nil_list_ex)
  then show ?thesis by (simp add: updateReview_def)
qed

lemma updateReview_owned:
  assumes "list_ex (ownedBy rid owner) (reviews d)"
  shows "\<exists>r d'. updateReview now d rid owner upd = Inr (r, d')
            \<and> r_id r = rid \<and> r_userId r = Some owner"
proof -
  obtain x xs where f: "filter (ownedBy rid owner) (reviews d) = x # xs"
    using assms by (cases "filter (ownedBy rid owner) (reviews d)") (auto simp: filter_Nil_list_ex)
  have "x \<in> set (filter (ownedBy rid owner) (reviews d))" by (simp add: f)
  then have "ownedBy rid owner x" by simp
  then show ?thesis using f
    by (simp add: updateReview_def applyUpdate_def ownedBy_def)
qed

lemma deleteReview_unowned:
  "\<not> list_ex (ownedBy rid owner) (reviews d) \<Longrightarrow>
     deleteReview d rid owner = Inl ReviewNotFoundOrUnauthorized"
  using filter_Nil_list_ex[of "ownedBy rid owner" "reviews d"]
  by (simp add: deleteReview_def)

lemma deleteReview_owned:
  "list_ex (ownedBy rid owner) (reviews d) \<Longrightarrow>
     deleteReview d rid owner =
       Inr (d\<lparr>reviews := filter (\<lambda>r. \<not> ownedBy rid owner r) (reviews d)\<rparr>)"
  using filter_Nil_list_ex[of "ownedBy rid owner" "reviews d"]
  by (simp add: deleteReview_def)

text \<open>
  C6. Update and delete succeed exactly when a review with the given id exists and its
  user id is the owner's. In every other case (no such review, another user's review,
  an anonymous review) both fail with the one error \<^verbatim>\<open>Review not found or
  unauthorized\<close>, so the cases cannot be told apart.
\<close>

theorem review_mutation_ownership:
  "(isOwnedReview d reviewId ownerId \<longrightarrow>
      (\<exists>r d'. updateReview now d reviewId ownerId updates = Inr (r, d')
             \<and> r_id r = reviewId \<and> r_userId r = Some ownerId)
    \<and> (\<exists>d'. deleteReview d reviewId ownerId = Inr d'
             \<and> \<not> isOwnedReview d' reviewId ownerId))
   \<and> (\<not> isOwnedReview d reviewId ownerId \<longrightarrow>
        updateReview now d reviewId ownerId updates = Inl ReviewNotFoundOrUnauthorized
      \<and> deleteReview d reviewId ownerId = Inl ReviewNotFoundOrUnauthorized)"
proof (intro conjI impI)
  assume o: "isOwnedReview d reviewId ownerId"
  show "\<exists>r d'. updateReview now d reviewId ownerId updates = Inr (r, d')
             \<and> r_id r = reviewId \<and> r_userId r = Some ownerId"
    using updateReview_owned[of reviewId ownerId d now updates] o
    by (simp add: isOwnedReview_def)
  show "\<exists>d'. deleteReview d reviewId ownerId = Inr d' \<and> \<not> isOwnedReview d' reviewId ownerId"
    using deleteReview_owned[of reviewId ownerId d] o
    by (auto simp: isOwnedReview_def list_ex_iff)
next
  assume n: "\<not> isOwnedReview d reviewId ownerId"
  show "updateReview now d reviewId ownerId updates = Inl ReviewNotFoundOrUnauthorized"
    using n by (simp add: isOwnedReview_def updateReview_unowned)
  show "deleteReview d reviewId ownerId = Inl ReviewNotFoundOrUnauthorized"
    using n by (simp add: isOwnedReview_def deleteReview_unowned)
qed

theorem review_mutation_ownership_witness:
  "isOwnedReview directory ''r1'' ''alice''
   \<and> (\<exists>r d'. updateReview 50 directory ''r1'' ''alice'' twoStars = Inr (r, d')
            \<and> r_id r = ''r1'' \<and> r_userId r = Some ''alice'')
   \<and> updateReview 50 directory ''r1'' ''bob'' twoStars = Inl ReviewNotFoundOrUnauthorized
   \<and> deleteReview directory ''r1'' ''bob'' = Inl ReviewNotFoundOrUnauthorized
   \<and> updateReview 50 directory ''r7'' ''bob'' twoStars = Inl ReviewNotFoundOrUnauthorized
   \<and> deleteReview directory ''r7'' ''bob'' = Inl ReviewNotFoundOrUnauthorized
   \<and> updateReview 50 directory ''r2'' ''bob'' twoStars = Inl ReviewNotFoundOrUnauthorized
   \<and> deleteReview directory ''r2'' ''bob'' = Inl ReviewNotFoundOrUnauthorized"
proof -
  have own: "isOwnedReview directory ''r1'' ''alice''"
    by (simp add: isOwnedReview_def ownedBy_def directory_def mkReview_def)
  have other: "\<not> isOwnedReview directory ''r1'' ''bob''"
    by (simp add: isOwnedReview_def ownedBy_def directory_def mkReview_def)
  have missing: "\<not> isOwnedReview directory ''r7'' ''bob''"
    by (simp add: isOwnedReview_def ownedBy_def directory_def mkReview_def)
  have anonymous: "\<not> isOwnedReview directory ''r2'' ''bob''"
    by (simp add: isOwnedReview_def ownedBy_def directory_def mkReview_def)
  from review_mutation_ownership[of directory "''r1''" "''alice''" 50 twoStars]
       review_mutation_ownership[of directory "''r1''" "''bob''" 50 twoStars]
       review_mutation_ownership[of directory "''r7''" "''bob''" 50 twoStars]
       review_mutation_ownership[of directory "''r2''" "''bob''" 50 twoStars]
       own other missing anonymous
  show ?thesis by simp
qed

section \<open>Favorites\<close>

lemma addUserFavorite_existing:
  assumes "favoriteCount d u s \<noteq> 0"
  shows "\<exists>f. addUserFavorite newId now d u s = Inr (f, d) \<and> f \<in> set (userFavorites d)
             \<and> favoriteOf u s f"
proof -
  obtain x xs where f: "filter (favoriteOf u s) (userFavorites d) = x # xs"
    using assms by (cases "filter (favoriteOf u s) (userFavorites d)") (auto simp: favoriteCount_def)
  have "x \<in> set (filter (favoriteOf u s) (userFavorites d))" by (simp add: f)
  then have "x \<in> set (userFavorites d) \<and> favoriteOf u s x" by simp
  then show ?thesis using f by (simp add: addUserFavorite_def)
qed

lemma addUserFavorite_result:
  assumes "addUserFavorite newId now d u s = Inr (f, d')"
  shows "favoriteOf u s f \<and> f \<in> set (userFavorites d')
       \<and> favoriteCount d' u s = max 1 (favoriteCount d u s)
       \<and> (\<exists>xs. filter (favoriteOf u s) (userFavorites d') = f # xs)"
proof (cases "filter (favoriteOf u s) (userFavorites d)")
  case Nil
  then show ?thesis using assms
    by (auto simp: addUserFavorite_def favoriteCount_def favoriteOf_def Let_def split: if_splits)
next
  case (Cons x xs)
  have "x \<in> set (filter (favoriteOf u s) (userFavorites d))" by (simp add: Cons)
  then have "x \<in> set (userFavorites d) \<and> favoriteOf u s x" by simp
  then show ?thesis using assms Cons
    by (auto simp: addUserFavorite_def favoriteCount_def)
qed

lemma addUserFavorite_again:
  assumes "addUserFavorite newId now d u s = Inr (f, d')"
  shows "addUserFavorite newId2 now2 d' u s = Inr (f, d')"
proof -
  from addUserFavorite_result[OF assms]
  obtain xs where "filter (favoriteOf u s) (userFavorites d') = f # xs"
    by blast
  then show ?thesis by (simp add: addUserFavorite_def)
qed

lemma addUserFavorite_new:
  assumes "favoriteCount d u s = 0" "u \<in> set (users d)" "s \<in> set (map s_id (shops d))"
  shows "addUserFavorite newId now d u s =
     Inr (\<lparr> fav_id = newId, fav_userId = u, fav_shopId = s, fav_createdAt = Some now \<rparr>,
          d\<lparr>userFavorites := userFavorites d @
              [\<lparr> fav_id = newId, fav_userId = u, fav_shopId = s, fav_createdAt = Some now \<rparr>]\<rparr>)"
  using assms by (simp add: addUserFavorite_def favoriteCount_def Let_def)

text \<open>
  C7. Adding a favorite is idempotent: when a record of the pair exists, it is returned
  and the table is unchanged; a second call after any successful call returns the same
  record and changes nothing, and the pair then has as many records as before, or one
  if it had none. For an existing user and shop without a favorite, two calls in
  sequence leave exactly one record. Removing always succeeds, and changes nothing when
  the pair has no favorite.
\<close>

theorem favorite_idempotence:
  "(favoriteCount d userId shopId \<noteq> 0 \<longrightarrow>
      (\<exists>f. addUserFavorite newId now d userId shopId = Inr (f, d)
          \<and> f \<in> set (userFavorites d) \<and> favoriteOf userId shopId f))
   \<and> (\<forall>f d'. addUserFavorite newId now d userId shopId = Inr (f, d') \<longrightarrow>
         addUserFavorite newId2 now2 d' userId shopId = Inr (f, d')
       \<and> favoriteCount d' userId shopId = max 1 (favoriteCount d userId shopId))
   \<and> (favoriteCount d userId shopId = 0 \<and> userId \<in> set (users d)
        \<and> shopId \<in> set (map s_id (shops d)) \<longrightarrow>
        (\<exists>f d'. addUserFavorite newId now d userId shopId = Inr (f, d')
             \<and> addUserFavorite newId2 now2 d' userId shopId = Inr (f, d')
             \<and> favoriteCount d' userId shopId = 1))
   \<and> (\<exists>d'. removeUserFavorite d userId shopId = Inr d' \<and> favoriteCount d' userId shopId = 0)
   \<and> (favoriteCount d userId shopId = 0 \<longrightarrow> removeUserFavorite d userId shopId = Inr d)"
proof (intro conjI allI impI)
  assume "favoriteCount d userId shopId \<noteq> 0"
  then show "\<exists>f. addUserFavorite newId now d userId shopId = Inr (f, d)
          \<and> f \<in> set (userFavorites d) \<and> favoriteOf userId shopId f"
    by (rule addUserFavorite_existing)
next
  fix f d' assume h: "addUserFavorite newId now d userId shopId = Inr (f, d')"
  show "addUserFavorite newId2 now2 d' userId shopId = Inr (f, d')"
    by (rule addUserFavorite_again[OF h])
  show "favoriteCount d' userId shopId = max 1 (favoriteCount d userId shopId)"
    using addUserFavorite_result[OF h] by simp
next
  assume a: "favoriteCount d userId shopId = 0 \<and> userId \<in> set (users d)
        \<and> shopId \<in> set (map s_id (shops d))"
  then obtain f d' where h: "addUserFavorite newId now d userId shopId = Inr (f, d')"
    using addUserFavorite_new[of d userId shopId newId now] by blast
  have "favoriteCount d' userId shopId = 1"
    using addUserFavorite_result[OF h] a by simp
  then show "\<exists>f d'. addUserFavorite newId now d userId shopId = Inr (f, d')
             \<and> addUserFavorite newId2 now2 d' userId shopId = Inr (f, d')
             \<and> favoriteCount d' userId shopId = 1"
    using h addUserFavorite_again[OF h] by blast
next
  show "\<exists>d'. removeUserFavorite d userId shopId = Inr d' \<and> favoriteCount d' userId shopId = 0"
    by (simp add: removeUserFavorite_def favoriteCount_def)
next
  assume "favoriteCount d userId shopId = 0"
  then have "filter (\<lambda>f. \<not> favoriteOf userId shopId f) (userFavorites d) = userFavorites d"
    by (simp add: favoriteCount_def filter_id_conv filter_empty_conv)
  then show "removeUserFavorite d userId shopId = Inr d"
    by (simp add: removeUserFavorite_def)
qed

theorem favorite_idempotence_witness:
  "favoriteCount directory ''alice'' ''s1'' = 1
   \<and> (\<exists>f. addUserFavorite ''f2'' 60 directory ''alice'' ''s1'' = Inr (f, directory)
          \<and> f \<in> set (userFavorites directory))
   \<and> favoriteCount directory ''bob'' ''s2'' = 0
   \<and> (\<exists>f d'. addUserFavorite ''f2'' 60 directory ''bob'' ''s2'' = Inr (f, d')
          \<and> addUserFavorite ''f3'' 61 d' ''bob'' ''s2'' = Inr (f, d')
          \<and> favoriteCount d' ''bob'' ''s2'' = 1)
   \<and> removeUserFavorite directory ''bob'' ''s2'' = Inr directory"
proof -
  have c1: "favoriteCount directory ''alice'' ''s1'' = 1"
    by (simp add: favoriteCount_def favoriteOf_def directory_def)
  have c0: "favoriteCount directory ''bob'' ''s2'' = 0"
    by (simp add: favoriteCount_def favoriteOf_def directory_def)
  have fk: "''bob'' \<in> set (users directory) \<and> ''s2'' \<in> set (map s_id (shops directory))"
    by (simp add: directory_def shopGrill_def mkShop_def)
  from favorite_idempotence[of directory "''alice''" "''s1''" "''f2''" 60 "''f3''" 61]
       favorite_idempotence[of directory "''bob''" "''s2''" "''f2''" 60 "''f3''" 61]
       c1 c0 fk
  show ?thesis by auto
qed

section \<open>The rows of a query\<close>

lemma set_insertBy: "set (insertBy b x xs) = insert x (set xs)"
  by (induction xs) auto

lemma set_stableSort: "set (stableSort b xs) = set xs"
  by (induction xs) (auto simp: stableSort_def set_insertBy)

lemma set_slice: "set (slice xs a b) \<subseteq> set xs"
  by (auto simp: slice_def Let_def dest!: in_set_takeD in_set_dropD)

lemma baseQuery_set:
  "set (baseQuery d f) = aggregateRow d ` {s \<in> set (shops d). shopMatches f s}"
  by (auto simp: baseQuery_def set_stableSort Let_def)

lemma baseQuery_rowOf: "i \<in> set (baseQuery d f) \<Longrightarrow> rowOf d f i"
  by (auto simp: baseQuery_set rowOf_def aggregateRow_def)

lemma queryRows_rowOf:
  assumes "i \<in> set (queryRows E d f)"
  shows "rowOf d f i"
proof (cases "f_lat f")
  case None
  then show ?thesis using assms by (simp add: queryRows_def baseQuery_rowOf)
next
  case lat: (Some lat)
  show ?thesis
  proof (cases "f_lng f")
    case None
    then show ?thesis using assms lat by (simp add: queryRows_def baseQuery_rowOf)
  next
    case (Some lng)
    then obtain j v where "j \<in> set (baseQuery d f)" "i = j\<lparr>it_distance := v\<rparr>"
      using assms lat
      by (auto simp: queryRows_def Let_def set_stableSort split: option.splits if_splits)
    then show ?thesis using baseQuery_rowOf[of j d f] by (simp add: rowOf_def)
  qed
qed

lemma getShops_rowOf:
  assumes "x \<in> set (getShops E d f)"
  shows "\<exists>i. rowOf d f i \<and> x = hydrate d i"
proof -
  from assms obtain i where "i \<in> set (slice (queryRows E d f) (pageOffset f)
        (js_add (pageOffset f) (pageLimit f)))" "x = hydrate d i"
    by (auto simp: getShops_def Let_def)
  then have "i \<in> set (queryRows E d f)" "x = hydrate d i"
    using set_slice[of "queryRows E d f"] by auto
  then show ?thesis using queryRows_rowOf[of i E d f] by blast
qed

lemma it_shop_queryRows:
  "it_shop ` set (queryRows E d f)
     = {s \<in> set (shops d). shopMatches f s \<and> withinRadius E f s}"
proof (cases "f_lat f")
  case None
  then show ?thesis
    by (auto simp: queryRows_def baseQuery_set withinRadius_def aggregateRow_def image_iff)
next
  case lat: (Some lat)
  show ?thesis
  proof (cases "f_lng f")
    case None
    then show ?thesis using lat
      by (auto simp: queryRows_def baseQuery_set withinRadius_def aggregateRow_def image_iff)
  next
    case lng: (Some lng)
    show ?thesis
    proof (cases "f_radius f")
      case None
      then show ?thesis using lat lng
        by (auto simp: queryRows_def baseQuery_set withinRadius_def aggregateRow_def image_iff
              set_stableSort Let_def)
    next
      case (Some radius)
      have "set (queryRows E d f)
              = {i\<lparr>it_distance := Some (shopDistance E lat lng (it_shop i))\<rparr> | i.
                   i \<in> set (baseQuery d f) \<and> js_le (shopDistance E lat lng (it_shop i)) radius}"
        using lat lng Some
        by (auto simp: queryRows_def set_stableSort Let_def distanceOf_def shopDistance_def)
      then have "it_shop ` set (queryRows E d f)
              = {it_shop i | i. i \<in> set (baseQuery d f)
                                \<and> js_le (shopDistance E lat lng (it_shop i)) radius}"
        by (auto simp: image_iff) force
      also have "\<dots> = {s \<in> set (shops d). shopMatches f s \<and> js_le (shopDistance E lat lng s) radius}"
        by (auto simp: baseQuery_set aggregateRow_def) force
      finally show ?thesis using lat lng Some by (simp add: withinRadius_def)
    qed
  qed
qed

lemma fullResult_shops:
  "set (map swd_shop (fullResult E d f))
     = {s \<in> set (shops d). shopMatches f s \<and> withinRadius E f s}"
proof -
  have "map swd_shop (fullResult E d f) = map it_shop (queryRows E d f)"
    by (simp add: fullResult_def hydrate_def)
  then show ?thesis using it_shop_queryRows[of E d f] by simp
qed

section \<open>Pagination\<close>

lemma take_min_length: "take (min n (length ys)) ys = take n ys"
  by (simp add: min_def)

lemma slice_nonneg:
  assumes "0 \<le> ofs" "0 \<le> lmt"
  shows "slice xs (Fin ofs) (js_add (Fin ofs) (Fin lmt)) = take (nat lmt) (drop (nat ofs) xs)"
proof (cases "ofs < int (length xs)")
  case True
  have k: "relativeIndex (int (length xs)) ofs = ofs"
    using assms True by (simp add: relativeIndex_def)
  have f: "relativeIndex (int (length xs)) (ofs + lmt) = min (ofs + lmt) (int (length xs))"
    using assms by (simp add: relativeIndex_def)
  have "nat (min (ofs + lmt) (int (length xs)) - ofs) = min (nat lmt) (length (drop (nat ofs) xs))"
    using assms True by (simp add: min_def) linarith
  then show ?thesis
    by (simp add: slice_def Let_def toInteger_def k f take_min_length del: length_drop)
next
  case False
  then have "drop (nat ofs) xs = []" using assms by simp
  moreover have "relativeIndex (int (length xs)) ofs = int (length xs)"
    using assms False by (simp add: relativeIndex_def)
  ultimately show ?thesis
    by (simp add: slice_def Let_def toInteger_def)
qed

lemma concat_pages:
  "concat (map (\<lambda>k. take l (drop (k * l) xs)) [0..<n]) = take (n * l) xs"
proof (induction n)
  case 0
  then show ?case by simp
next
  case (Suc n)
  have "take (n * l) xs @ take l (drop (n * l) xs) = take (n * l + l) xs"
    by (simp add: take_add)
  then show ?case using Suc by (simp add: add.commute)
qed

lemma shopMatches_page: "shopMatches (page f a b) = shopMatches f"
  by (rule ext) (simp add: shopMatches_def page_def)

lemma page_fields:
  "f_sortBy (page f a b) = f_sortBy f" "f_lat (page f a b) = f_lat f"
  "f_lng (page f a b) = f_lng f" "f_radius (page f a b) = f_radius f"
  by (simp_all add: page_def)

lemma baseQuery_page: "baseQuery d (page f a b) = baseQuery d f"
  by (simp add: baseQuery_def shopMatches_page page_fields cong: if_cong)

lemma queryRows_page: "queryRows E d (page f a b) = queryRows E d f"
  unfolding queryRows_def baseQuery_page page_fields by (rule refl)

lemma fullResult_page: "fullResult E d (page f a b) = fullResult E d f"
  by (simp add: fullResult_def queryRows_page)

lemma page_offset_limit: "pageOffset (page f a b) = Fin a" "pageLimit (page f a b) = Fin b"
  by (simp_all add: pageOffset_def pageLimit_def page_def)

lemma slice_map: "map g (slice xs a b) = slice (map g xs) a b"
  by (simp add: slice_def Let_def take_map drop_map)

lemma getShops_slice:
  "getShops E d f = slice (fullResult E d f) (pageOffset f) (js_add (pageOffset f) (pageLimit f))"
  by (simp add: getShops_def fullResult_def Let_def slice_map)

lemma getShops_window:
  assumes "pageOffset f = Fin ofs" "pageLimit f = Fin lmt" "0 \<le> ofs" "0 \<le> lmt"
  shows "getShops E d f = take (nat lmt) (drop (nat ofs) (fullResult E d f))"
proof -
  have "slice (queryRows E d f) (Fin ofs) (js_add (Fin ofs) (Fin lmt))
          = take (nat lmt) (drop (nat ofs) (queryRows E d f))"
    using assms(3,4) by (rule slice_nonneg)
  then show ?thesis
    using assms(1,2) by (simp add: getShops_def fullResult_def Let_def take_map drop_map)
qed

lemma getShops_page:
  assumes "0 \<le> ofs" "0 \<le> lmt"
  shows "getShops E d (page f ofs lmt) = take (nat lmt) (drop (nat ofs) (fullResult E d f))"
  using getShops_window[where f = "page f ofs lmt" and E = E and d = d, OF page_offset_limit assms]
  by (simp add: fullResult_page)

lemma pages_concat:
  assumes "0 < lmt" "length (fullResult E d f) \<le> n * nat lmt"
  shows "concat (map (\<lambda>k. getShops E d (page f (int k * lmt) lmt)) [0..<n]) = fullResult E d f"
proof -
  have "\<And>k. getShops E d (page f (int k * lmt) lmt)
          = take (nat lmt) (drop (k * nat lmt) (fullResult E d f))"
  proof -
    fix k
    have "nat (int k * lmt) = k * nat lmt" using assms(1) by (simp add: nat_mult_distrib)
    then show "getShops E d (page f (int k * lmt) lmt)
          = take (nat lmt) (drop (k * nat lmt) (fullResult E d f))"
      using getShops_page[of "int k * lmt" lmt E d f] assms(1) by simp
  qed
  then show ?thesis using assms(2) by (simp add: concat_pages)
qed

text \<open>
  C1. For every filter, the query returns \<^verbatim>\<open>slice(offset, offset + limit)\<close> of the full
  result: all rows left after the non-distance filters, the distance computation, the
  radius filter and the sort, hydrated. The full result holds every published shop that
  passes the filters and the radius condition, and it does not depend on the page
  selected. For an offset and a limit that are non-negative integers (absent ones
  count as 0 and 50), the slice is exactly the elements \<open>offset \<le> i < offset + limit\<close>
  of the full result. For a limit of at least 1, the pages at offsets
  \<open>0, limit, 2 \<cdot> limit, \<dots>\<close>, concatenated until they cover the length of the full
  result, are the full result: nothing is repeated and nothing is left out.
\<close>

theorem pagination_after_filtering:
  "getShops E d f
     = slice (fullResult E d f) (pageOffset f) (js_add (pageOffset f) (pageLimit f))
   \<and> set (map swd_shop (fullResult E d f))
       = {s \<in> set (shops d). shopMatches f s \<and> withinRadius E f s}
   \<and> fullResult E d (page f a b) = fullResult E d f
   \<and> (pageOffset f = Fin ofs \<and> pageLimit f = Fin lmt \<and> 0 \<le> ofs \<and> 0 \<le> lmt \<longrightarrow>
        getShops E d f = take (nat lmt) (drop (nat ofs) (fullResult E d f)))
   \<and> (0 < lmt \<and> length (fullResult E d f) \<le> n * nat lmt \<longrightarrow>
        concat (map (\<lambda>k. getShops E d (page f (int k * lmt) lmt)) [0..<n]) = fullResult E d f)"
proof (intro conjI impI)
  show "getShops E d f
     = slice (fullResult E d f) (pageOffset f) (js_add (pageOffset f) (pageLimit f))"
    by (rule getShops_slice)
  show "set (map swd_shop (fullResult E d f))
       = {s \<in> set (shops d). shopMatches f s \<and> withinRadius E f s}"
    by (rule fullResult_shops)
  show "fullResult E d (page f a b) = fullResult E d f"
    by (rule fullResult_page)
next
  assume "pageOffset f = Fin ofs \<and> pageLimit f = Fin lmt \<and> 0 \<le> ofs \<and> 0 \<le> lmt"
  then show "getShops E d f = take (nat lmt) (drop (nat ofs) (fullResult E d f))"
    using getShops_window[of f ofs lmt E d] by blast
next
  assume "0 < lmt \<and> length (fullResult E d f) \<le> n * nat lmt"
  then show "concat (map (\<lambda>k. getShops E d (page f (int k * lmt) lmt)) [0..<n])
               = fullResult E d f"
    using pages_concat[of lmt E d f n] by blast
qed

theorem pagination_after_filtering_witness:
  "map (\<lambda>x. (s_id (swd_shop x), distance x)) (fullResult tableGeo directory nearFreiberg)
     = [(''s1'', Some (Fin 217)), (''s4'', Some (Fin 688)), (''s2'', Some (Fin 31105))]
   \<and> getShops tableGeo directory nearFreiberg = fullResult tableGeo directory nearFreiberg
   \<and> getShops tableGeo directory (page nearFreiberg 0 2)
       @ getShops tableGeo directory (page nearFreiberg 2 2)
     = fullResult tableGeo directory nearFreiberg"
proof -
  have full: "map (\<lambda>x. (s_id (swd_shop x), distance x)) (fullResult tableGeo directory nearFreiberg)
     = [(''s1'', Some (Fin 217)), (''s4'', Some (Fin 688)), (''s2'', Some (Fin 31105))]"
    by code_simp
  then have len: "length (fullResult tableGeo directory nearFreiberg) = 3"
    using length_map[of "\<lambda>x. (s_id (swd_shop x), distance x)"
            "fullResult tableGeo directory nearFreiberg"] by simp
  have dflt: "pageOffset nearFreiberg = Fin 0 \<and> pageLimit nearFreiberg = Fin 50"
    by (simp add: pageOffset_def pageLimit_def nearFreiberg_def noFilters_def)
  have upt: "[0..<2] = [0, Suc 0]"
    by (simp add: upt_rec)
  from pagination_after_filtering[where E = tableGeo and d = directory and f = nearFreiberg
         and ofs = 0 and lmt = 50 and n = 1]
       pagination_after_filtering[where E = tableGeo and d = directory and f = nearFreiberg
         and ofs = 0 and lmt = 2 and n = 2]
       full len dflt upt
  show ?thesis by simp
qed

section \<open>Publication\<close>

lemma getShops_only_published:
  assumes "x \<in> set (getShops E d f)"
  shows "s_isPublished (swd_shop x) = Some True \<and> swd_shop x \<in> set (shops d)"
  using getShops_rowOf[OF assms] by (auto simp: rowOf_def hydrate_def shopMatches_def)

text \<open>
  C2. The list query returns published shops only (\<open>getShops_only_published\<close>), but the
  detail lookup selects by slug alone: for the draft of the small directory,
  \<^verbatim>\<open>GET /api/shops/entwurf-imbiss\<close> answers with the shop, although no list query
  returns it.
\<close>

theorem unpublished_shop_by_slug:
  "s_isPublished shopDraft = Some False
   \<and> getApiShopBySlug directory ''entwurf-imbiss''
       = ShopJson \<lparr> swd_shop = shopDraft, swd_openingHours = [], swd_reviews = [],
                    swd_photos = [], avgRating = 0, reviewCount = 0, distance = None \<rparr>
   \<and> shopDraft \<notin> set (map swd_shop (getShops tableGeo directory noFilters))"
  by code_simp

section \<open>Aggregate rating: list and detail\<close>

lemma unique_slug_filter:
  "distinct (map g xs) \<Longrightarrow> x \<in> set xs \<Longrightarrow> filter (\<lambda>y. g y = g x) xs = [x]"
proof (induction xs)
  case Nil
  then show ?case by simp
next
  case (Cons a xs)
  show ?case
  proof (cases "a = x")
    case True
    then have "g x \<notin> g ` set xs" using Cons.prems(1) by simp
    then have "\<forall>y\<in>set xs. g y \<noteq> g x" by (metis imageI)
    then have "filter (\<lambda>y. g y = g x) xs = []" by (simp add: filter_empty_conv)
    then show ?thesis using True by simp
  next
    case False
    then have "x \<in> set xs" using Cons.prems(2) by simp
    moreover have "g a \<noteq> g x" using Cons.prems(1) calculation by auto
    ultimately show ?thesis using Cons by simp
  qed
qed

lemma list_avg_eq: "js_Number (coalesce v 0) = or_zero (js_Number v)"
  by (cases v) (simp_all add: js_Number_def coalesce_def or_zero_def)

lemma js_Number_avg: "js_Number (coalesce (sql_avg xs) 0) = mean xs"
  by (simp add: js_Number_def coalesce_def sql_avg_def mean_def)

text \<open>
  C4. With slugs unique, as the schema declares them, every entry of a list result has a
  detail record under its slug, for the same shop and with the same average rating and
  review count. That rating is the mean of the shop's review ratings, and 0 on both
  paths when the shop has no review. The detail record of any shop, listed or not,
  carries the mean of its review ratings.
\<close>

theorem avgRating_list_equals_detail:
  "(distinct (map s_slug (shops d)) \<longrightarrow>
     (\<forall>x \<in> set (getShops E d f).
        \<exists>y. getShopBySlug d (s_slug (swd_shop x)) = Some y
           \<and> swd_shop y = swd_shop x
           \<and> avgRating y = avgRating x
           \<and> avgRating x = mean (ratingsOf d (s_id (swd_shop x)))
           \<and> reviewCount y = reviewCount x
           \<and> (ratingsOf d (s_id (swd_shop x)) = [] \<longrightarrow> avgRating x = 0 \<and> avgRating y = 0)))
   \<and> (\<forall>slug y. getShopBySlug d slug = Some y \<longrightarrow>
          avgRating y = mean (ratingsOf d (s_id (swd_shop y))))"
proof (intro conjI impI ballI allI)
  fix x assume u: "distinct (map s_slug (shops d))" and x: "x \<in> set (getShops E d f)"
  from getShops_rowOf[OF x] obtain i where i: "rowOf d f i" "x = hydrate d i" by blast
  then have "it_shop i \<in> set (shops d)" by (simp add: rowOf_def)
  then have "filter (\<lambda>s. s_slug s = s_slug (it_shop i)) (shops d) = [it_shop i]"
    using unique_slug_filter[OF u] by simp
  then show "\<exists>y. getShopBySlug d (s_slug (swd_shop x)) = Some y
           \<and> swd_shop y = swd_shop x
           \<and> avgRating y = avgRating x
           \<and> avgRating x = mean (ratingsOf d (s_id (swd_shop x)))
           \<and> reviewCount y = reviewCount x
           \<and> (ratingsOf d (s_id (swd_shop x)) = [] \<longrightarrow> avgRating x = 0 \<and> avgRating y = 0)"
    using i
    by (simp add: getShopBySlug_def hydrate_def rowOf_def list_avg_eq[symmetric] js_Number_avg
          mean_def)
next
  fix slug y assume "getShopBySlug d slug = Some y"
  then show "avgRating y = mean (ratingsOf d (s_id (swd_shop y)))"
    by (auto simp: getShopBySlug_def list_avg_eq[symmetric] js_Number_avg split: list.splits)
qed

theorem avgRating_list_equals_detail_witness:
  "distinct (map s_slug (shops directory))
   \<and> map (\<lambda>x. (s_slug (swd_shop x), avgRating x)) (getShops tableGeo directory noFilters)
       = [(''doener-king'', 9 / 2), (''neu-imbiss'', 0), (''chemnitz-grill'', 4)]
   \<and> map_option avgRating (getShopBySlug directory ''doener-king'') = Some (9 / 2)
   \<and> map_option avgRating (getShopBySlug directory ''neu-imbiss'') = Some 0
   \<and> map_option avgRating (getShopBySlug directory ''chemnitz-grill'') = Some 4"
proof -
  have u: "distinct (map s_slug (shops directory))" by code_simp
  have l: "map (\<lambda>x. (s_slug (swd_shop x), avgRating x)) (getShops tableGeo directory noFilters)
       = [(''doener-king'', 9 / 2), (''neu-imbiss'', 0), (''chemnitz-grill'', 4)]"
    by code_simp
  then obtain a b c where abc: "getShops tableGeo directory noFilters = [a, b, c]"
      "s_slug (swd_shop a) = ''doener-king''" "avgRating a = 9 / 2"
      "s_slug (swd_shop b) = ''neu-imbiss''" "avgRating b = 0"
      "s_slug (swd_shop c) = ''chemnitz-grill''" "avgRating c = 4"
    by auto
  from avgRating_list_equals_detail[of directory tableGeo noFilters] u abc l
  show ?thesis by auto
qed

section \<open>Malformed filter input\<close>

lemma js_le_NaN: "js_le x NaN = False"
  by (cases x) simp_all

lemma relativeIndex_nonneg: "0 \<le> relativeIndex (int n) i"
  by (simp add: relativeIndex_def)

lemma slice_end_NaN: "slice xs a NaN = []"
  using relativeIndex_nonneg[of "length xs" "toInteger a"]
  by (simp add: slice_def Let_def toInteger_def relativeIndex_def)

lemma js_add_NaN: "js_add NaN b = NaN" "js_add a NaN = NaN"
  by (cases a, simp_all)

lemma getShops_limit_NaN: "pageLimit f = NaN \<Longrightarrow> getShops E d f = []"
  by (simp add: getShops_def Let_def js_add_NaN slice_end_NaN)

lemma getShops_offset_NaN: "pageOffset f = NaN \<Longrightarrow> getShops E d f = []"
  by (simp add: getShops_def Let_def js_add_NaN slice_end_NaN)

lemma stableSort_Nil: "stableSort b [] = []"
  by (simp add: stableSort_def)

lemma queryRows_radius_NaN:
  "f_lat f = Some la \<Longrightarrow> f_lng f = Some lo \<Longrightarrow> f_radius f = Some NaN \<Longrightarrow> queryRows E d f = []"
  by (simp add: queryRows_def Let_def js_le_NaN stableSort_Nil)

lemma slice_Nil: "slice [] a b = []"
  by (simp add: slice_def Let_def)

lemma getShops_radius_NaN:
  "f_lat f = Some la \<Longrightarrow> f_lng f = Some lo \<Longrightarrow> f_radius f = Some NaN \<Longrightarrow> getShops E d f = []"
  by (simp add: getShops_def Let_def queryRows_radius_NaN slice_Nil)

lemma queryRows_no_reference:
  "f_lat f = None \<or> f_lng f = None \<Longrightarrow> queryRows E d f = baseQuery d f"
  by (auto simp: queryRows_def Let_def split: option.splits)


lemma shopMatches_radius: "shopMatches (f\<lparr>f_radius := r\<rparr>) = shopMatches f"
  by (rule ext) (simp add: shopMatches_def)

lemma baseQuery_radius: "baseQuery d (f\<lparr>f_radius := r\<rparr>) = baseQuery d f"
  by (simp add: baseQuery_def shopMatches_radius cong: if_cong)

lemma getShops_radius_inert:
  assumes "f_lat f = None \<or> f_lng f = None"
  shows "getShops E d (f\<lparr>f_radius := r\<rparr>) = getShops E d f"
proof -
  have "queryRows E d (f\<lparr>f_radius := r\<rparr>) = baseQuery d (f\<lparr>f_radius := r\<rparr>)"
    using assms by (intro queryRows_no_reference) simp
  moreover have "queryRows E d f = baseQuery d f"
    using assms by (rule queryRows_no_reference)
  ultimately have "queryRows E d (f\<lparr>f_radius := r\<rparr>) = queryRows E d f"
    by (simp add: baseQuery_radius)
  then show ?thesis
    by (simp add: getShops_def pageLimit_def pageOffset_def)
qed

lemma parsedIfTruthy_None: "(parsedIfTruthy p v = None) = (\<not> truthy v)"
  by (auto simp: parsedIfTruthy_def truthy_def split: option.splits)

lemma filters_radius:
  "filtersOfQuery E (q\<lparr>q_radius := r\<rparr>) = (filtersOfQuery E q)\<lparr>f_radius := parsedIfTruthy parseInt r\<rparr>"
  by (simp add: filtersOfQuery_def)

lemma radius_without_reference:
  assumes "\<not> truthy (q_lat q) \<or> \<not> truthy (q_lng q)"
  shows "getApiShops E d (q\<lparr>q_radius := r\<rparr>) = getApiShops E d (q\<lparr>q_radius := None\<rparr>)"
proof -
  have n: "f_lat (filtersOfQuery E q) = None \<or> f_lng (filtersOfQuery E q) = None"
    using assms by (simp add: filtersOfQuery_def parsedIfTruthy_None)
  show ?thesis
    unfolding getApiShops_def filters_radius
    by (simp add: getShops_radius_inert[OF n])
qed

lemma empty_is_absent:
  "getApiShops E d (q\<lparr>q_lat := Some []\<rparr>) = getApiShops E d (q\<lparr>q_lat := None\<rparr>)"
  "getApiShops E d (q\<lparr>q_lng := Some []\<rparr>) = getApiShops E d (q\<lparr>q_lng := None\<rparr>)"
  "getApiShops E d (q\<lparr>q_radius := Some []\<rparr>) = getApiShops E d (q\<lparr>q_radius := None\<rparr>)"
  by (simp_all add: getApiShops_def filtersOfQuery_def parsedIfTruthy_def)

lemma unparsable_page:
  assumes "parseInt s = NaN"
  shows "getApiShops E d (q\<lparr>q_limit := Some s\<rparr>) = []"
    and "getApiShops E d (q\<lparr>q_offset := Some s\<rparr>) = []"
proof -
  have "pageLimit (filtersOfQuery E (q\<lparr>q_limit := Some s\<rparr>)) = NaN"
    using assms by (simp add: pageLimit_def filtersOfQuery_def withDefault_def)
  then show "getApiShops E d (q\<lparr>q_limit := Some s\<rparr>) = []"
    by (simp add: getApiShops_def getShops_limit_NaN)
  have "pageOffset (filtersOfQuery E (q\<lparr>q_offset := Some s\<rparr>)) = NaN"
    using assms by (simp add: pageOffset_def filtersOfQuery_def withDefault_def)
  then show "getApiShops E d (q\<lparr>q_offset := Some s\<rparr>) = []"
    by (simp add: getApiShops_def getShops_offset_NaN)
qed

lemma unparsable_radius:
  assumes "parseInt s = NaN" "s \<noteq> []" "truthy (q_lat q)" "truthy (q_lng q)"
  shows "getApiShops E d (q\<lparr>q_radius := Some s\<rparr>) = []"
proof -
  obtain la lo where "f_lat (filtersOfQuery E (q\<lparr>q_radius := Some s\<rparr>)) = Some la"
      "f_lng (filtersOfQuery E (q\<lparr>q_radius := Some s\<rparr>)) = Some lo"
    using assms(3,4) by (auto simp: filtersOfQuery_def parsedIfTruthy_def truthy_def split: option.splits)
  moreover have "f_radius (filtersOfQuery E (q\<lparr>q_radius := Some s\<rparr>)) = Some NaN"
    using assms(1,2) by (simp add: filtersOfQuery_def parsedIfTruthy_def)
  ultimately show ?thesis
    unfolding getApiShops_def by (rule getShops_radius_NaN)
qed

lemma queryRows_distance:
  assumes "f_lat f = Some la" "f_lng f = Some lo" "i \<in> set (queryRows E d f)"
  shows "it_distance i \<noteq> None"
  using assms
  by (auto simp: queryRows_def Let_def set_stableSort split: option.splits if_splits)

lemma reference_counts_as_supplied:
  assumes "truthy (q_lat q)" "truthy (q_lng q)" "x \<in> set (getApiShops E d q)"
  shows "distance x \<noteq> None"
proof -
  obtain la lo where r: "f_lat (filtersOfQuery E q) = Some la" "f_lng (filtersOfQuery E q) = Some lo"
    using assms(1,2) by (auto simp: filtersOfQuery_def parsedIfTruthy_def truthy_def split: option.splits)
  from assms(3) obtain i where "i \<in> set (slice (queryRows E d (filtersOfQuery E q))
         (pageOffset (filtersOfQuery E q))
         (js_add (pageOffset (filtersOfQuery E q)) (pageLimit (filtersOfQuery E q))))"
       "x = hydrate d i"
    by (auto simp: getApiShops_def getShops_def Let_def)
  then have "i \<in> set (queryRows E d (filtersOfQuery E q))" "x = hydrate d i"
    using set_slice[of "queryRows E d (filtersOfQuery E q)"] by auto
  then show ?thesis using queryRows_distance[OF r] by (simp add: hydrate_def)
qed

text \<open>
  C3, amended. The handler has no raising branch on any query string. A radius, parsable
  or not, has no effect when \<^verbatim>\<open>lat\<close> or \<^verbatim>\<open>lng\<close> is absent or empty. An empty
  \<^verbatim>\<open>lat\<close>, \<^verbatim>\<open>lng\<close> or \<^verbatim>\<open>radius\<close> is the same as an absent one. A value that does
  not parse is not dropped, it goes on as \<^verbatim>\<open>NaN\<close>: such a limit or offset gives an empty
  page, such a radius together with a reference point excludes every shop, and
  non-empty \<^verbatim>\<open>lat\<close> and \<^verbatim>\<open>lng\<close> count as a reference point whatever they parse to
  (every returned shop carries a distance).
\<close>

theorem malformed_numeric_inputs:
  "(\<not> truthy (q_lat q) \<or> \<not> truthy (q_lng q) \<longrightarrow>
      getApiShops E d (q\<lparr>q_radius := r\<rparr>) = getApiShops E d (q\<lparr>q_radius := None\<rparr>))
   \<and> getApiShops E d (q\<lparr>q_lat := Some []\<rparr>) = getApiShops E d (q\<lparr>q_lat := None\<rparr>)
   \<and> getApiShops E d (q\<lparr>q_lng := Some []\<rparr>) = getApiShops E d (q\<lparr>q_lng := None\<rparr>)
   \<and> getApiShops E d (q\<lparr>q_radius := Some []\<rparr>) = getApiShops E d (q\<lparr>q_radius := None\<rparr>)
   \<and> (parseInt s = NaN \<longrightarrow>
        getApiShops E d (q\<lparr>q_limit := Some s\<rparr>) = []
      \<and> getApiShops E d (q\<lparr>q_offset := Some s\<rparr>) = [])
   \<and> (parseInt s = NaN \<and> s \<noteq> [] \<and> truthy (q_lat q) \<and> truthy (q_lng q) \<longrightarrow>
        getApiShops E d (q\<lparr>q_radius := Some s\<rparr>) = [])
   \<and> (truthy (q_lat q) \<and> truthy (q_lng q) \<longrightarrow>
        (\<forall>x \<in> set (getApiShops E d q). distance x \<noteq> None))"
  using radius_without_reference[of q E d r] empty_is_absent[of E d q]
        unparsable_page[of s E d q] unparsable_radius[of s q E d]
        reference_counts_as_supplied[of q _ E d]
  by blast

theorem malformed_numeric_inputs_witness:
  "parseInt ''abc'' = NaN
   \<and> getApiShops tableGeo directory (noQuery\<lparr>q_radius := Some ''abc''\<rparr>)
       = getApiShops tableGeo directory noQuery
   \<and> getApiShops tableGeo directory (noQuery\<lparr>q_radius := Some ''100''\<rparr>)
       = getApiShops tableGeo directory noQuery
   \<and> getApiShops tableGeo directory (nearQuery\<lparr>q_limit := Some ''abc''\<rparr>) = []
   \<and> getApiShops tableGeo directory (nearQuery\<lparr>q_offset := Some ''abc''\<rparr>) = []
   \<and> getApiShops tableGeo directory (nearQuery\<lparr>q_radius := Some ''abc''\<rparr>) = []
   \<and> map distance (getApiShops tableGeo directory nearQuery)
       = [Some (Fin 217), Some (Fin 688), Some (Fin 31105)]"
proof -
  have p: "parseInt ''abc'' = NaN" by code_simp
  have n: "\<not> truthy (q_lat noQuery) \<or> \<not> truthy (q_lng noQuery)"
    by (simp add: noQuery_def truthy_def)
  have t: "''abc'' \<noteq> [] \<and> truthy (q_lat nearQuery) \<and> truthy (q_lng nearQuery)"
    by (simp add: nearQuery_def noQuery_def truthy_def)
  have e: "noQuery\<lparr>q_radius := None\<rparr> = noQuery"
    by (simp add: noQuery_def)
  have dist: "map distance (getApiShops tableGeo directory nearQuery)
       = [Some (Fin 217), Some (Fin 688), Some (Fin 31105)]"
    by code_simp
  from malformed_numeric_inputs[where q = noQuery and E = tableGeo and d = directory
         and r = "Some ''abc''" and s = "''abc''"]
       malformed_numeric_inputs[where q = noQuery and E = tableGeo and d = directory
         and r = "Some ''100''" and s = "''abc''"]
       malformed_numeric_inputs[where q = nearQuery and E = tableGeo and d = directory
         and r = "Some ''abc''" and s = "''abc''"]
       p n t e dist
  show ?thesis by simp
qed

text \<open>
  The claim as first stated fails: with \<^verbatim>\<open>limit=abc\<close> the result is empty, while the
  same query without \<^verbatim>\<open>limit\<close> returns the three published shops.
\<close>

theorem unparsable_limit_counterexample:
  "parseInt ''abc'' = NaN
   \<and> getApiShops tableGeo directory (noQuery\<lparr>q_limit := Some ''abc''\<rparr>) = []
   \<and> map (\<lambda>x. s_id (swd_shop x)) (getApiShops tableGeo directory noQuery) = [''s1'', ''s4'', ''s2'']
   \<and> getApiShops tableGeo directory (noQuery\<lparr>q_limit := Some ''abc''\<rparr>)
       \<noteq> getApiShops tableGeo directory noQuery"
  by code_simp

section \<open>Distance: server and client\<close>

text \<open>
  C8. Whatever the arithmetic, the server's distance is the Haversine distance in
  kilometres (Earth radius 6371 km) times 1000, rounded, and the client's distance is
  the same Haversine distance times 100, rounded, divided by 100: both read the one
  underlying value \<open>haversine_km\<close> and differ in unit and rounding only.
\<close>

theorem distance_same_haversine:
  "storage_calculateDistance M lat1 lng1 lat2 lng2
     = m_round M (m_times M (haversine_km M lat1 lng1 lat2 lng2) (m_lit M 1000))
   \<and> utils_calculateDistance M lat1 lng1 lat2 lng2
     = m_over M (m_round M (m_times M (haversine_km M lat1 lng1 lat2 lng2) (m_lit M 100)))
         (m_lit M 100)"
  by (simp add: storage_calculateDistance_def utils_calculateDistance_def haversine_km_def
        haversine_a_def degreesToRadians_def toRadians_def radians_def Let_def)

text \<open>Over the reals, both give 0 for identical points.\<close>

lemma distance_zero_real:
  "storage_calculateDistance realMath lat lng lat lng = 0"
  "utils_calculateDistance realMath lat lng lat lng = 0"
  by (simp_all add: storage_calculateDistance_def utils_calculateDistance_def realMath_def
        degreesToRadians_def toRadians_def Let_def)

section \<open>Opening hours\<close>

lemma of_char_digitChar: "n < 10 \<Longrightarrow> (of_char (digitChar n) :: nat) = 48 + n"
  by (simp add: digitChar_def)

lemma digitChar_neq:
  assumes "n < 10" "(of_char c :: nat) < 48 \<or> 57 < (of_char c :: nat)"
  shows "digitChar n \<noteq> c"
  using assms of_char_digitChar[of n] by auto

lemma digitChar_not_space: "n < 10 \<Longrightarrow> \<not> isWhiteSpace (digitChar n)"
  by (simp add: isWhiteSpace_def of_char_digitChar)

lemma radixDigit_digitChar: "n < 10 \<Longrightarrow> radixDigit 10 (digitChar n) = Some n"
  by (simp add: radixDigit_def digitValue_def of_char_digitChar)

lemma parseInt_four_digits:
  assumes "a < 10" "b < 10" "c < 10" "e < 10"
  shows "parseInt [digitChar a, digitChar b, digitChar c, digitChar e]
           = Fin (int (((a * 10 + b) * 10 + c) * 10 + e))"
proof -
  have s: "\<not> isWhiteSpace (digitChar a)" using assms by (simp add: digitChar_not_space)
  have m: "digitChar a \<noteq> CHR ''-''" "digitChar a \<noteq> CHR ''+''"
          "digitChar b \<noteq> CHR ''x''" "digitChar b \<noteq> CHR ''X''"
    using assms by (simp_all add: digitChar_neq)
  show ?thesis
    using assms s m
    by (simp add: parseInt_def Let_def radixDigit_digitChar digitsValue_def)
qed

lemma replaceColon_hhmm:
  assumes "h < 100" "m < 100"
  shows "replaceColon (hhmm h m)
           = [digitChar (h div 10), digitChar (h mod 10), digitChar (m div 10), digitChar (m mod 10)]"
proof -
  have "digitChar (h div 10) \<noteq> CHR '':''" "digitChar (h mod 10) \<noteq> CHR '':''"
    using assms by (simp_all add: digitChar_neq)
  then show ?thesis by (simp add: hhmm_def)
qed

lemma parseInt_hhmm:
  assumes "h < 100" "m < 100"
  shows "parseInt (replaceColon (hhmm h m)) = Fin (int (h * 100 + m))"
proof -
  have "((h div 10 * 10 + h mod 10) * 10 + m div 10) * 10 + m mod 10 = h * 100 + m"
    by presburger
  then show ?thesis
    using assms by (simp add: replaceColon_hhmm parseInt_four_digits)
qed

lemma hhmm_nonempty: "hhmm h m \<noteq> []"
  by (simp add: hhmm_def)

lemma hhmm_order_nat:
  fixes h m h' m' :: nat
  assumes "m < 60" "m' < 60"
  shows "(h * 100 + m \<le> h' * 100 + m') = (h * 60 + m \<le> h' * 60 + m')"
    and "(h * 100 + m < h' * 100 + m') = (h * 60 + m < h' * 60 + m')"
proof -
  consider "h < h'" | "h = h'" | "h' < h" by linarith
  then show "(h * 100 + m \<le> h' * 100 + m') = (h * 60 + m \<le> h' * 60 + m')"
    using assms by cases auto
  consider "h < h'" | "h = h'" | "h' < h" by linarith
  then show "(h * 100 + m < h' * 100 + m') = (h * 60 + m < h' * 60 + m')"
    using assms by cases auto
qed

lemma hhmm_order:
  assumes "m < 60" "m' < 60"
  shows "(int (h * 100 + m) \<le> int (h' * 100 + m')) = (minuteOfDay h m \<le> minuteOfDay h' m')"
    and "(int (h * 100 + m) < int (h' * 100 + m')) = (minuteOfDay h m < minuteOfDay h' m')"
  using hhmm_order_nat[OF assms, of h h']
  by (simp_all add: minuteOfDay_def del: of_nat_add of_nat_mult)

lemma isShopOpen_parsed:
  assumes "find (\<lambda>e. weekday e = day) hoursList = Some e"
      "openTime e = Some opens" "closeTime e = Some closes" "opens \<noteq> []" "closes \<noteq> []"
      "parseInt (replaceColon opens) = Fin openT" "parseInt (replaceColon closes) = Fin closeT"
  shows "isShopOpen hoursList day hours minutes =
           (if closeT < openT
            then openT \<le> hours * 100 + minutes \<or> hours * 100 + minutes \<le> closeT
            else openT \<le> hours * 100 + minutes \<and> hours * 100 + minutes \<le> closeT)"
proof -
  have "hoursList \<noteq> []" using assms(1) by auto
  then show ?thesis
    using assms by (simp add: isShopOpen_def Let_def)
qed

lemma isShopOpen_today:
  assumes "find (\<lambda>e. weekday e = day) hoursList = Some e"
      "openTime e = Some (hhmm oh om)" "closeTime e = Some (hhmm ch cm)"
      "oh < 24" "om < 60" "ch < 24" "cm < 60" "m < 60"
  shows "isShopOpen hoursList day (int h) (int m) =
           (if minuteOfDay ch cm < minuteOfDay oh om
            then minuteOfDay oh om \<le> minuteOfDay h m \<or> minuteOfDay h m \<le> minuteOfDay ch cm
            else minuteOfDay oh om \<le> minuteOfDay h m \<and> minuteOfDay h m \<le> minuteOfDay ch cm)"
proof -
  have po: "parseInt (replaceColon (hhmm oh om)) = Fin (int (oh * 100 + om))"
    using assms(4,5) by (intro parseInt_hhmm) simp_all
  have pc: "parseInt (replaceColon (hhmm ch cm)) = Fin (int (ch * 100 + cm))"
    using assms(6,7) by (intro parseInt_hhmm) simp_all
  have cur: "int h * 100 + int m = int (h * 100 + m)" by simp
  have "isShopOpen hoursList day (int h) (int m) =
           (if int (ch * 100 + cm) < int (oh * 100 + om)
            then int (oh * 100 + om) \<le> int (h * 100 + m) \<or> int (h * 100 + m) \<le> int (ch * 100 + cm)
            else int (oh * 100 + om) \<le> int (h * 100 + m) \<and> int (h * 100 + m) \<le> int (ch * 100 + cm))"
    unfolding cur[symmetric]
    by (rule isShopOpen_parsed[OF assms(1,2,3) hhmm_nonempty hhmm_nonempty po pc])
  then show ?thesis
    unfolding hhmm_order(2)[OF assms(7) assms(5)] hhmm_order(1)[OF assms(5) assms(8)]
              hhmm_order(1)[OF assms(8) assms(7)] .
qed

lemma isShopOpen_no_entry:
  "find (\<lambda>e. weekday e = day) hoursList = None \<Longrightarrow> \<not> isShopOpen hoursList day h m"
  by (simp add: isShopOpen_def Let_def)

lemma isShopOpen_no_time:
  assumes "find (\<lambda>e. weekday e = day) hoursList = Some e"
      "\<not> truthy (openTime e) \<or> \<not> truthy (closeTime e)"
  shows "\<not> isShopOpen hoursList day h m"
proof (cases "openTime e")
  case None
  then show ?thesis using assms(1) by (simp add: isShopOpen_def Let_def)
next
  case o: (Some opens)
  show ?thesis
  proof (cases "closeTime e")
    case None
    then show ?thesis using assms(1) o by (simp add: isShopOpen_def Let_def)
  next
    case (Some closes)
    then have "opens = [] \<or> closes = []" using assms(2) o by (simp add: truthy_def)
    then show ?thesis using assms(1) o Some by (simp add: isShopOpen_def Let_def)
  qed
qed

lemma isShopOpen_closed_day:
  assumes "find (\<lambda>e. weekday e = day) hoursList = None
        \<or> (\<exists>e. find (\<lambda>e. weekday e = day) hoursList = Some e
               \<and> (\<not> truthy (openTime e) \<or> \<not> truthy (closeTime e)))"
  shows "\<not> isShopOpen hoursList day h m"
  using assms isShopOpen_no_entry[of day hoursList h m] isShopOpen_no_time[of day hoursList _ h m]
  by blast

text \<open>
  C9, amended. When the first entry for the instant's weekday has both times set, in the
  format \<^verbatim>\<open>HH:MM\<close>, the shop is reported open exactly when the instant's minute of
  the day lies in the closed interval from the opening to the closing minute; for an
  overnight range (close before open) exactly when it is at or after the opening minute
  or at or before the closing minute. So the shop is still open at exactly its closing
  time. It is reported closed whenever that entry is missing or one of its times is
  null or empty.
\<close>

theorem isShopOpen_closed_interval:
  "(find (\<lambda>e. weekday e = day) hoursList = Some e
      \<and> openTime e = Some (hhmm oh om) \<and> closeTime e = Some (hhmm ch cm)
      \<and> oh < 24 \<and> om < 60 \<and> ch < 24 \<and> cm < 60 \<and> m < 60 \<longrightarrow>
      isShopOpen hoursList day (int h) (int m) =
        (if minuteOfDay ch cm < minuteOfDay oh om
         then minuteOfDay oh om \<le> minuteOfDay h m \<or> minuteOfDay h m \<le> minuteOfDay ch cm
         else minuteOfDay oh om \<le> minuteOfDay h m \<and> minuteOfDay h m \<le> minuteOfDay ch cm))
   \<and> (find (\<lambda>e. weekday e = day) hoursList = None
        \<or> (\<exists>e. find (\<lambda>e. weekday e = day) hoursList = Some e
               \<and> (\<not> truthy (openTime e) \<or> \<not> truthy (closeTime e)))
       \<longrightarrow> \<not> isShopOpen hoursList day t u)"
proof (intro conjI impI)
  assume "find (\<lambda>e. weekday e = day) hoursList = Some e
      \<and> openTime e = Some (hhmm oh om) \<and> closeTime e = Some (hhmm ch cm)
      \<and> oh < 24 \<and> om < 60 \<and> ch < 24 \<and> cm < 60 \<and> m < 60"
  then have a: "find (\<lambda>e. weekday e = day) hoursList = Some e"
      "openTime e = Some (hhmm oh om)" "closeTime e = Some (hhmm ch cm)"
      "oh < 24" "om < 60" "ch < 24" "cm < 60" "m < 60"
    by blast+
  show "isShopOpen hoursList day (int h) (int m) =
        (if minuteOfDay ch cm < minuteOfDay oh om
         then minuteOfDay oh om \<le> minuteOfDay h m \<or> minuteOfDay h m \<le> minuteOfDay ch cm
         else minuteOfDay oh om \<le> minuteOfDay h m \<and> minuteOfDay h m \<le> minuteOfDay ch cm)"
    by (rule isShopOpen_today[OF a])
next
  assume "find (\<lambda>e. weekday e = day) hoursList = None
        \<or> (\<exists>e. find (\<lambda>e. weekday e = day) hoursList = Some e
               \<and> (\<not> truthy (openTime e) \<or> \<not> truthy (closeTime e)))"
  then show "\<not> isShopOpen hoursList day t u"
    by (rule isShopOpen_closed_day)
qed

text \<open>
  The claim as first stated fails at the closing time: on Monday, with hours 11:00 to
  22:00, the shop is reported open at 22:00 and closed at 22:01.
\<close>

theorem open_at_closing_time_counterexample:
  "isShopOpen (openingHours directory) 1 22 0 \<and> \<not> isShopOpen (openingHours directory) 1 22 1"
  by code_simp

theorem isShopOpen_closed_interval_witness:
  "isShopOpen (openingHours directory) 1 11 0
   \<and> isShopOpen (openingHours directory) 1 22 0
   \<and> \<not> isShopOpen (openingHours directory) 1 10 59
   \<and> isShopOpen (openingHours directory) 5 23 30
   \<and> isShopOpen (openingHours directory) 5 2 0
   \<and> \<not> isShopOpen (openingHours directory) 5 2 1
   \<and> \<not> isShopOpen (openingHours directory) 0 12 0
   \<and> \<not> isShopOpen (openingHours directory) 3 12 0"
proof -
  have mon: "find (\<lambda>e. weekday e = 1) (openingHours directory)
      = Some \<lparr> oh_shopId = ''s1'', weekday = 1, openTime = Some (hhmm 11 0),
               closeTime = Some (hhmm 22 0) \<rparr>"
    by code_simp
  have fri: "find (\<lambda>e. weekday e = 5) (openingHours directory)
      = Some \<lparr> oh_shopId = ''s1'', weekday = 5, openTime = Some (hhmm 18 0),
               closeTime = Some (hhmm 2 0) \<rparr>"
    by code_simp
  have sun: "find (\<lambda>e. weekday e = 0) (openingHours directory)
      = Some \<lparr> oh_shopId = ''s1'', weekday = 0, openTime = None, closeTime = None \<rparr>"
    by code_simp
  have wed: "find (\<lambda>e. weekday e = 3) (openingHours directory) = None"
    by code_simp
  note t = isShopOpen_closed_interval[where hoursList = "openingHours directory"]
  from t[where day = 1 and oh = 11 and om = 0 and ch = 22 and cm = 0 and h = 11 and m = 0
           and e = "\<lparr> oh_shopId = ''s1'', weekday = 1, openTime = Some (hhmm 11 0),
               closeTime = Some (hhmm 22 0) \<rparr>"]
       t[where day = 1 and oh = 11 and om = 0 and ch = 22 and cm = 0 and h = 22 and m = 0
           and e = "\<lparr> oh_shopId = ''s1'', weekday = 1, openTime = Some (hhmm 11 0),
               closeTime = Some (hhmm 22 0) \<rparr>"]
       t[where day = 1 and oh = 11 and om = 0 and ch = 22 and cm = 0 and h = 10 and m = 59
           and e = "\<lparr> oh_shopId = ''s1'', weekday = 1, openTime = Some (hhmm 11 0),
               closeTime = Some (hhmm 22 0) \<rparr>"]
       t[where day = 5 and oh = 18 and om = 0 and ch = 2 and cm = 0 and h = 23 and m = 30
           and e = "\<lparr> oh_shopId = ''s1'', weekday = 5, openTime = Some (hhmm 18 0),
               closeTime = Some (hhmm 2 0) \<rparr>"]
       t[where day = 5 and oh = 18 and om = 0 and ch = 2 and cm = 0 and h = 2 and m = 0
           and e = "\<lparr> oh_shopId = ''s1'', weekday = 5, openTime = Some (hhmm 18 0),
               closeTime = Some (hhmm 2 0) \<rparr>"]
       t[where day = 5 and oh = 18 and om = 0 and ch = 2 and cm = 0 and h = 2 and m = 1
           and e = "\<lparr> oh_shopId = ''s1'', weekday = 5, openTime = Some (hhmm 18 0),
               closeTime = Some (hhmm 2 0) \<rparr>"]
       t[where day = 0 and t = 12 and u = 0]
       t[where day = 3 and t = 12 and u = 0]
       mon fri sun wed
  show ?thesis by (simp add: minuteOfDay_def truthy_def)
qed

end
